theory Spec2Isabelle
  imports Complex_Main "HOL-Library.Char_ord" "HOL-Library.List_Lexorder"
    "HOL-Library.Product_Lexorder"
begin

section \<open>Python and pandas primitives\<close>

text \<open>
  Strings are \<^typ>\<open>string\<close>. A cell of a float column is an exact rational. In
  \<open>calculate_kpis\<close> the results of float arithmetic are values of \<open>f64\<close> below, which has
  the infinities and NaN and in which a result beyond the largest float overflows. In the
  aggregators and the alert rules sums and quotients are exact rationals, and a quotient
  by zero, which is NaN or infinite, is \<^term>\<open>None\<close> in a \<^typ>\<open>rat option\<close>. Rounding to
  the nearest float is not modelled anywhere.
\<close>

text \<open>\<^verbatim>\<open>sep.join(xs)\<close>\<close>

fun join :: "string \<Rightarrow> string list \<Rightarrow> string" where
  "join sep [] = []"
| "join sep [x] = x"
| "join sep (x # y # ys) = x @ sep @ join sep (y # ys)"

text \<open>\<^verbatim>\<open>s.endswith(suffix)\<close>\<close>

definition endswith :: "string \<Rightarrow> string \<Rightarrow> bool" where
  "endswith s suffix =
     (length suffix \<le> length s \<and> drop (length s - length suffix) s = suffix)"

text \<open>\<^verbatim>\<open>str(n)\<close> of a non-negative integer.\<close>

fun str_nat :: "nat \<Rightarrow> string" where
  "str_nat n = (if n < 10 then [char_of (48 + n)]
                else str_nat (n div 10) @ [char_of (48 + n mod 10)])"

text \<open>\<^verbatim>\<open>str(i)\<close> of an integer, and the format \<^verbatim>\<open>{n:0Wd}\<close> of a non-negative one.\<close>

definition str_int :: "int \<Rightarrow> string" where
  "str_int i = (if i < 0 then ''-'' @ str_nat (nat (- i)) else str_nat (nat i))"

definition fmt_0d :: "nat \<Rightarrow> nat \<Rightarrow> string" where
  "fmt_0d width n = replicate (width - length (str_nat n)) (CHR ''0'') @ str_nat n"

text \<open>
  \<^verbatim>\<open>xs.index(x)\<close>, the position of the first occurrence. Python raises when there is
  none; the generator only asks for elements of the list it searches.
\<close>

definition index_of :: "'a list \<Rightarrow> 'a \<Rightarrow> nat" where
  "index_of xs x = length (takeWhile (\<lambda>y. y \<noteq> x) xs)"

subsection \<open>Floating point and exceptions\<close>

text \<open>
  The exceptions a division of Python integers can raise.
\<close>

datatype py_error = ZeroDivisionError | OverflowError

text \<open>
  A float64 value: a finite number, an infinity or NaN. \<open>fl\<close> is the result of an
  operation whose exact value is \<open>r\<close>: an infinity when \<open>r\<close> is beyond the largest float,
  \<open>r\<close> itself otherwise. The operations follow IEEE 754 on the infinities and NaN; the
  sign of zero is not modelled, a zero divisor counting as positive. A comparison with NaN
  is false.
\<close>

datatype f64 = Fin rat | PInf | NInf | NaN

definition max_f64 :: rat where
  "max_f64 = (2 ^ 53 - 1) * 2 ^ 971"

definition fl :: "rat \<Rightarrow> f64" where
  "fl r = (if r > max_f64 then PInf else if r < - max_f64 then NInf else Fin r)"

definition inf_of_sign :: "rat \<Rightarrow> f64" where
  "inf_of_sign s = (if s > 0 then PInf else if s < 0 then NInf else NaN)"

fun fneg :: "f64 \<Rightarrow> f64" where
  "fneg (Fin x) = Fin (- x)"
| "fneg PInf = NInf"
| "fneg NInf = PInf"
| "fneg NaN = NaN"

fun fadd :: "f64 \<Rightarrow> f64 \<Rightarrow> f64" where
  "fadd NaN b = NaN"
| "fadd a NaN = NaN"
| "fadd (Fin x) (Fin y) = fl (x + y)"
| "fadd PInf NInf = NaN"
| "fadd NInf PInf = NaN"
| "fadd PInf b = PInf"
| "fadd NInf b = NInf"
| "fadd a PInf = PInf"
| "fadd a NInf = NInf"

definition fsub :: "f64 \<Rightarrow> f64 \<Rightarrow> f64" where
  "fsub a b = fadd a (fneg b)"

fun fmul :: "f64 \<Rightarrow> f64 \<Rightarrow> f64" where
  "fmul NaN b = NaN"
| "fmul a NaN = NaN"
| "fmul (Fin x) (Fin y) = fl (x * y)"
| "fmul (Fin x) PInf = inf_of_sign x"
| "fmul (Fin x) NInf = inf_of_sign (- x)"
| "fmul PInf (Fin y) = inf_of_sign y"
| "fmul NInf (Fin y) = inf_of_sign (- y)"
| "fmul PInf PInf = PInf"
| "fmul PInf NInf = NInf"
| "fmul NInf PInf = NInf"
| "fmul NInf NInf = PInf"

fun fdiv :: "f64 \<Rightarrow> f64 \<Rightarrow> f64" where
  "fdiv NaN b = NaN"
| "fdiv a NaN = NaN"
| "fdiv (Fin x) (Fin y) = (if y = 0 then inf_of_sign x else fl (x / y))"
| "fdiv (Fin x) b = Fin 0"
| "fdiv PInf (Fin y) = (if y < 0 then NInf else PInf)"
| "fdiv NInf (Fin y) = (if y < 0 then PInf else NInf)"
| "fdiv a b = NaN"

fun fgt :: "f64 \<Rightarrow> f64 \<Rightarrow> bool" where
  "fgt NaN b = False"
| "fgt a NaN = False"
| "fgt (Fin x) (Fin y) = (x > y)"
| "fgt PInf PInf = False"
| "fgt PInf b = True"
| "fgt NInf b = False"
| "fgt (Fin x) PInf = False"
| "fgt (Fin x) NInf = True"

text \<open>
  \<^verbatim>\<open>Series.sum()\<close> of a float column with finite cells: the exact sum, overflowing as a
  whole. \<^verbatim>\<open>Series.mean()\<close> of float values is their sum over their number, NaN when
  there is none.
\<close>

definition column_sum :: "rat list \<Rightarrow> f64" where
  "column_sum xs = fl (sum_list xs)"

definition fmean :: "f64 list \<Rightarrow> f64" where
  "fmean xs = (if xs = [] then NaN
               else fdiv (fold fadd xs (Fin 0)) (Fin (of_nat (length xs))))"

text \<open>
  \<^verbatim>\<open>a / b\<close> on Python integers: it raises on a zero divisor and when the quotient is too
  large for a float.
\<close>

definition int_truediv :: "nat \<Rightarrow> nat \<Rightarrow> py_error + f64" where
  "int_truediv a b =
     (if b = 0 then Inl ZeroDivisionError
      else if of_nat a / of_nat b > max_f64 then Inl OverflowError
      else Inr (Fin (of_nat a / of_nat b)))"

subsection \<open>Timestamps\<close>

text \<open>
  A pandas timestamp is a count of nanoseconds since the epoch; \<^verbatim>\<open>NaT\<close> is \<open>None\<close>
  where a cell or a maximum can be missing. \<^verbatim>\<open>.date()\<close> and \<^verbatim>\<open>.dt.date\<close>
  give the calendar day, here its number, and \<^verbatim>\<open>timedelta(days=n)\<close> is a number of
  nanoseconds.
\<close>

type_synonym timestamp = int

definition day_ns :: int where
  "day_ns = 86400000000000"

definition timedelta :: "int \<Rightarrow> int" where
  "timedelta days = days * day_ns"

definition date_of :: "timestamp \<Rightarrow> int" where
  "date_of t = t div day_ns"

text \<open>\<^verbatim>\<open>Series.max()\<close> of a timestamp column: \<^verbatim>\<open>NaT\<close> on an empty column.\<close>

definition series_max :: "timestamp list \<Rightarrow> timestamp option" where
  "series_max xs = (if xs = [] then None else Some (Max (set xs)))"

text \<open>\<^verbatim>\<open>datetime.hour\<close> of a timestamp.\<close>

definition hour_of :: "timestamp \<Rightarrow> int" where
  "hour_of t = (t mod day_ns) div 3600000000000"

text \<open>
  \<^verbatim>\<open>pd.date_range(end=e, periods=n, freq='D')\<close>: \<open>n\<close> timestamps one day apart, the
  last of them \<open>e\<close>.
\<close>

definition date_range :: "timestamp \<Rightarrow> nat \<Rightarrow> timestamp list" where
  "date_range e periods = map (\<lambda>k. e - timedelta (int (periods - 1 - k))) [0..<periods]"

text \<open>
  \<^verbatim>\<open>date.strftime('%Y%m%d')\<close>: the civil date of the timestamp's day, by the usual
  conversion from a day count in the proleptic Gregorian calendar.
\<close>

definition civil_from_days :: "int \<Rightarrow> int \<times> int \<times> int" where
  "civil_from_days days =
     (let z = days + 719468;
          era = z div 146097;
          doe = z - era * 146097;
          yoe = (doe - doe div 1460 + doe div 36524 - doe div 146096) div 365;
          y = yoe + era * 400;
          doy = doe - (365 * yoe + yoe div 4 - yoe div 100);
          mp = (5 * doy + 2) div 153;
          d = doy - (153 * mp + 2) div 5 + 1;
          m = (if mp < 10 then mp + 3 else mp - 9)
      in (if m \<le> 2 then y + 1 else y, m, d))"

definition strftime_Ymd :: "timestamp \<Rightarrow> string" where
  "strftime_Ymd t =
     (let (y, m, d) = civil_from_days (date_of t)
      in fmt_0d 4 (nat y) @ fmt_0d 2 (nat m) @ fmt_0d 2 (nat d))"

subsection \<open>Series and groupby\<close>

text \<open>\<^verbatim>\<open>Series.mean()\<close>: NaN on an empty series.\<close>

definition mean :: "rat list \<Rightarrow> rat option" where
  "mean xs = (if xs = [] then None else Some (sum_list xs / of_nat (length xs)))"

text \<open>
  A cell of a string column read from a file can be missing (NaN); such a column is a list
  of options. \<^verbatim>\<open>len(Series.unique())\<close> counts the distinct values, a missing cell being
  one of them.
\<close>

definition len_unique :: "'a list \<Rightarrow> nat" where
  "len_unique xs = length (remdups xs)"

text \<open>The \<^verbatim>\<open>nunique\<close> aggregation counts the distinct values that are not missing.\<close>

definition nunique :: "'a option list \<Rightarrow> nat" where
  "nunique xs = length (remdups (List.map_filter (\<lambda>c. c) xs))"

text \<open>
  \<^verbatim>\<open>df.groupby(key)\<close>: the group keys in ascending order, each with its rows in table
  order.
\<close>

definition groupby :: "('r \<Rightarrow> 'k::linorder) \<Rightarrow> 'r list \<Rightarrow> ('k \<times> 'r list) list" where
  "groupby key rows =
     map (\<lambda>k. (k, filter (\<lambda>r. key r = k) rows)) (sort (remdups (map key rows)))"

text \<open>
  \<^verbatim>\<open>df.groupby(key)\<close> on a column with missing cells: the rows whose key is missing
  belong to no group.
\<close>

definition groupby_dropna :: "('r \<Rightarrow> 'k::linorder option) \<Rightarrow> 'r list \<Rightarrow> ('k \<times> 'r list) list" where
  "groupby_dropna key rows =
     map (\<lambda>k. (k, filter (\<lambda>r. key r = Some k) rows)) (sort (remdups (List.map_filter key rows)))"

text \<open>\<^verbatim>\<open>df.groupby(key)[col].sum()\<close>\<close>

definition groupby_sum :: "('r \<Rightarrow> 'k::linorder) \<Rightarrow> ('r \<Rightarrow> rat) \<Rightarrow> 'r list \<Rightarrow> ('k \<times> rat) list" where
  "groupby_sum key col rows = map (\<lambda>(k, g). (k, sum_list (map col g))) (groupby key rows)"

text \<open>
  \<^verbatim>\<open>df.sort_values(col, ascending=False)\<close>: rows in descending order of the column.
  The order pandas gives to rows with equal values depends on its sorting algorithm; here
  they keep their order.
\<close>

definition sort_values_desc :: "('a \<Rightarrow> rat) \<Rightarrow> 'a list \<Rightarrow> 'a list" where
  "sort_values_desc col rows = sort_key (\<lambda>r. - col r) rows"


section \<open>Data model\<close>

text \<open>
  A sales row. \<open>Transaction_ID\<close> is \<open>None\<close> where the cell is missing: a file with a blank
  cell in that column has the column, so it passes \<open>validate_excel\<close>.
\<close>

record sales_row =
  Date :: timestamp
  Boutique_ID :: string
  Boutique_Name :: string
  Region :: string
  SKU_Code :: string
  Product_Category :: string
  Brand :: string
  Units_Sold :: int
  Revenue_Local_Currency :: rat
  Revenue_USD :: rat
  Transaction_ID :: "string option"
  Sales_Associate_ID :: string
  Customer_Type :: string
  Payment_Method :: string

text \<open>
  An inventory frame is its column names and its rows. The columns the code reads
  unconditionally are fields of the row. Whether the frame has the columns the code
  tests for (\<^verbatim>\<open>'Last_Restock_Date' in inventory_data.columns\<close>,
  \<^verbatim>\<open>item.get('Boutique_ID', 'Unknown')\<close>) or creates (\<^verbatim>\<open>Days_Since_Restock\<close>)
  is decided by \<open>inv_columns\<close>; the field of a column the frame does not have carries no
  information. A missing timestamp cell is \<open>None\<close>.
\<close>

record inventory_row =
  inv_Date :: timestamp
  inv_Boutique_ID :: string
  inv_SKU_Code :: string
  Product_Name :: string
  Category :: string
  inv_Brand :: string
  Current_Stock_Units :: int
  Min_Stock_Threshold :: int
  Max_Stock_Threshold :: int
  Unit_Cost :: rat
  Retail_Price :: rat
  Last_Restock_Date :: "timestamp option"
  Supplier_Lead_Time_Days :: int
  Days_Since_Restock :: "int option"

record inventory_table =
  inv_columns :: "string list"
  inv_rows :: "inventory_row list"

section \<open>data_loader.py\<close>

subsection \<open>validate_excel\<close>

text \<open>
  \<^verbatim>\<open>set(required_columns) - set(df.columns)\<close> is a Python set; the order in which
  \<^verbatim>\<open>', '.join\<close> walks it is fixed by the interpreter's string hashing, not by the
  program, so it is the parameter \<open>iter\<close>: the enumeration of a finite set of strings.
  The frame enters through its column names \<open>df_columns\<close>.
\<close>

definition validate_excel ::
  "(string set \<Rightarrow> string list) \<Rightarrow> string list \<Rightarrow> string list \<Rightarrow> string \<Rightarrow> string list" where
  "validate_excel iter df_columns required_columns file_type =
     (let errors = [];
          missing_cols = set required_columns - set df_columns;
          errors = (if missing_cols \<noteq> {}
                    then errors @ [file_type @ '' is missing columns: '' @
                                   join '', '' (iter missing_cols)]
                    else errors)
      in errors)"

subsection \<open>load_data\<close>

text \<open>
  Reading and parsing belong to pandas, not to the repository, so they are parameters:
  \<open>read_csv\<close> and \<open>read_excel\<close> give the frame or the text \<^verbatim>\<open>str(e)\<close> of the exception
  raised, \<open>columns_of\<close> the column names of a frame, and \<open>to_datetime\<close> the frame with its
  \<open>Date\<close> column parsed (\<^verbatim>\<open>df['Date'] = pd.to_datetime(df['Date'])\<close> on a frame that
  has the column) or the text of the parse error. An upload has a name and a body.
\<close>

record 'c uploaded_file =
  file_name :: string
  file_body :: 'c

record ('c, 'f) pandas =
  read_csv :: "'c uploaded_file \<Rightarrow> string + 'f"
  read_excel :: "'c uploaded_file \<Rightarrow> string + 'f"
  columns_of :: "'f \<Rightarrow> string list"
  to_datetime :: "'f \<Rightarrow> string + 'f"

definition sales_columns :: "string list" where
  "sales_columns = [''Date'', ''Boutique_ID'', ''Boutique_Name'', ''Region'', ''SKU_Code'',
     ''Product_Category'', ''Brand'', ''Units_Sold'', ''Revenue_USD'',
     ''Transaction_ID'', ''Customer_Type'']"

definition inventory_columns :: "string list" where
  "inventory_columns = [''Date'', ''Boutique_ID'', ''SKU_Code'', ''Product_Name'', ''Category'',
     ''Brand'', ''Current_Stock_Units'', ''Min_Stock_Threshold'', ''Retail_Price'']"

text \<open>\<^verbatim>\<open>str(KeyError(k))\<close>: the key in single quotes.\<close>

definition key_error :: "string \<Rightarrow> string" where
  "key_error k = [CHR 0x27] @ k @ [CHR 0x27]"

definition read_file :: "('c, 'f) pandas \<Rightarrow> 'c uploaded_file \<Rightarrow> string + 'f" where
  "read_file pd file =
     (if endswith (file_name file) ''.csv'' then read_csv pd file else read_excel pd file)"

text \<open>
  One \<^verbatim>\<open>try\<close> block of \<open>load_data\<close> (lines 28 to 43 for the sales file, 45 to 60 for the
  inventory file; they differ in the required columns, the label and the word \<open>kind\<close> of
  the error text). \<open>errors\<close> is the list so far; what \<^verbatim>\<open>errors.extend\<close> added before an
  exception stays in it. Indexing a frame by a column it does not have raises
  \<^verbatim>\<open>KeyError\<close>, which the \<^verbatim>\<open>except\<close> clause catches like any other exception.
\<close>

definition load_table ::
  "(string set \<Rightarrow> string list) \<Rightarrow> ('c, 'f) pandas \<Rightarrow> string list \<Rightarrow> string \<Rightarrow> string \<Rightarrow>
   'c uploaded_file \<Rightarrow> string list \<Rightarrow> 'f option \<times> string list" where
  "load_table iter pd required_columns file_type kind file errors =
     (case read_file pd file of
        Inl e \<Rightarrow> (None, errors @ [''Error loading '' @ kind @ '' file: '' @ e])
      | Inr data \<Rightarrow>
          (let errors = errors @ validate_excel iter (columns_of pd data) required_columns file_type
           in if ''Date'' \<in> set (columns_of pd data)
              then (case to_datetime pd data of
                      Inl e \<Rightarrow> (None, errors @ [''Error loading '' @ kind @ '' file: '' @ e])
                    | Inr data \<Rightarrow> (Some data, errors))
              else (None, errors @
                      [''Error loading '' @ kind @ '' file: '' @ key_error ''Date''])))"

definition load_data ::
  "(string set \<Rightarrow> string list) \<Rightarrow> ('c, 'f) pandas \<Rightarrow> 'c uploaded_file \<Rightarrow> 'c uploaded_file \<Rightarrow>
   'f option \<times> 'f option \<times> string list" where
  "load_data iter pd sales_file inventory_file =
     (let errors = [];
          (sales_data, errors) =
            load_table iter pd sales_columns ''Sales Report'' ''sales'' sales_file errors;
          (inventory_data, errors) =
            load_table iter pd inventory_columns ''Inventory Report'' ''inventory''
              inventory_file errors
      in (sales_data, inventory_data, errors))"

subsection \<open>generate_demo_data\<close>

text \<open>
  numpy's global generator is a parameter: \<open>seed\<close> gives the state after
  \<^verbatim>\<open>np.random.seed(n)\<close>, and \<open>randint\<close> and \<open>choice\<close> return their draw with the next
  state. \<open>choice\<close> takes the list and the optional probabilities. The wall clock is a
  parameter too: \<open>clock n\<close> is what the \<open>n\<close>-th call of \<^verbatim>\<open>datetime.now()\<close> in one
  invocation returns.
\<close>

record 's np_random =
  seed :: "nat \<Rightarrow> 's"
  randint :: "int \<Rightarrow> int \<Rightarrow> 's \<Rightarrow> int \<times> 's"
  choice :: "string list \<Rightarrow> rat list option \<Rightarrow> 's \<Rightarrow> string \<times> 's"

definition boutiques :: "string list" where
  "boutiques = [''Dubai Mall'',
                ''Paris Champs-'' @ [CHR 0xC3, CHR 0x89] @ ''lys'' @ [CHR 0xC3, CHR 0xA9] @ ''es'',
                ''London Bond Street'', ''NYC Fifth Avenue'', ''Tokyo Ginza'',
                ''Hong Kong Central'']"

definition regions :: "string list" where
  "regions = [''Middle East'', ''Europe'', ''Europe'', ''Americas'', ''Asia'', ''Asia'']"

definition categories :: "string list" where
  "categories = [''Watches'', ''Jewelry'', ''Accessories'']"

definition brands :: "string list" where
  "brands = [''Rolex'', ''Cartier'', ''Patek Philippe'', ''Van Cleef & Arpels'']"

text \<open>Lines 82 to 97: one sales record; the draws are in the order of the dict display.\<close>

definition sales_record ::
  "'s np_random \<Rightarrow> timestamp \<Rightarrow> string \<Rightarrow> string \<Rightarrow> nat \<Rightarrow>
   's \<Rightarrow> sales_row \<times> 's" where
  "sales_record rng date boutique region i s =
     (let (sku, s) = randint rng 1000 9999 s;
          (category, s) = choice rng categories None s;
          (brand, s) = choice rng brands None s;
          (units_sold, s) = randint rng 1 4 s;
          (revenue_local, s) = randint rng 5000 50000 s;
          (revenue_usd, s) = randint rng 5000 50000 s;
          (associate, s) = randint rng 100 999 s;
          (customer_type, s) =
            choice rng [''New'', ''Returning'', ''VIP''] (Some [3 / 10, 1 / 2, 1 / 5]) s;
          (payment_method, s) = choice rng [''Credit Card'', ''Cash'', ''Wire Transfer''] None s
      in (\<lparr> Date = date,
             Boutique_ID = ''BTQ'' @ fmt_0d 3 (index_of boutiques boutique + 1),
             Boutique_Name = boutique,
             Region = region,
             SKU_Code = ''SKU'' @ str_int sku,
             Product_Category = category,
             Brand = brand,
             Units_Sold = units_sold,
             Revenue_Local_Currency = of_int revenue_local,
             Revenue_USD = of_int revenue_usd,
             Transaction_ID = Some (''TXN'' @ strftime_Ymd date @ fmt_0d 4 i),
             Sales_Associate_ID = ''SA'' @ str_int associate,
             Customer_Type = customer_type,
             Payment_Method = payment_method \<rparr>, s))"

text \<open>Lines 76 to 97: the three nested loops, innermost first, appending to \<open>sales_records\<close>.\<close>

definition transactions_loop ::
  "'s np_random \<Rightarrow> timestamp \<Rightarrow> string \<Rightarrow> string \<Rightarrow> int \<Rightarrow>
   sales_row list \<times> 's \<Rightarrow> sales_row list \<times> 's" where
  "transactions_loop rng date boutique region num_transactions =
     fold (\<lambda>i (sales_records, s).
             (let (record, s) = sales_record rng date boutique region i s
              in (sales_records @ [record], s)))
          [0..<nat num_transactions]"

definition boutiques_loop ::
  "'s np_random \<Rightarrow> timestamp \<Rightarrow>
   sales_row list \<times> 's \<Rightarrow> sales_row list \<times> 's" where
  "boutiques_loop rng date =
     fold (\<lambda>(boutique, region) (sales_records, s).
             (let (num_transactions, s) = randint rng 5 16 s
              in transactions_loop rng date boutique region num_transactions
                   (sales_records, s)))
          (zip boutiques regions)"

definition sales_loop ::
  "'s np_random \<Rightarrow> timestamp list \<Rightarrow>
   sales_row list \<times> 's \<Rightarrow> sales_row list \<times> 's" where
  "sales_loop rng dates = fold (boutiques_loop rng) dates"

text \<open>
  Lines 104 to 121: one inventory record. The state is the generator's and the number of
  clock readings taken so far.
\<close>

definition inventory_record ::
  "'s np_random \<Rightarrow> (nat \<Rightarrow> timestamp) \<Rightarrow> string \<Rightarrow> nat \<Rightarrow> 's \<times> nat \<Rightarrow>
   inventory_row \<times> ('s \<times> nat)" where
  "inventory_record rng clock boutique i = (\<lambda>(s, tick).
     (let (current_stock, s) = randint rng 0 20 s;
          min_threshold = 5;
          (date, tick) = (clock tick, tick + 1);
          (category, s) = choice rng categories None s;
          (brand, s) = choice rng brands None s;
          (unit_cost, s) = randint rng 2000 20000 s;
          (retail_price, s) = randint rng 5000 50000 s;
          (restock_now, tick) = (clock tick, tick + 1);
          (restock_age, s) = randint rng 1 60 s;
          (lead_time, s) = randint rng 7 30 s
      in (\<lparr> inv_Date = date,
             inv_Boutique_ID = ''BTQ'' @ fmt_0d 3 (index_of boutiques boutique + 1),
             inv_SKU_Code = ''SKU'' @ str_nat (1000 + i),
             Product_Name = ''Luxury Item '' @ str_nat i,
             Category = category,
             inv_Brand = brand,
             Current_Stock_Units = current_stock,
             Min_Stock_Threshold = min_threshold,
             Max_Stock_Threshold = 20,
             Unit_Cost = of_int unit_cost,
             Retail_Price = of_int retail_price,
             Last_Restock_Date = Some (restock_now - timedelta restock_age),
             Supplier_Lead_Time_Days = lead_time,
             Days_Since_Restock = None \<rparr>, (s, tick))))"

text \<open>Lines 102 to 121: the two nested loops, innermost first.\<close>

definition skus_loop ::
  "'s np_random \<Rightarrow> (nat \<Rightarrow> timestamp) \<Rightarrow> string \<Rightarrow> inventory_row list \<times> ('s \<times> nat) \<Rightarrow>
   inventory_row list \<times> ('s \<times> nat)" where
  "skus_loop rng clock boutique =
     fold (\<lambda>i (inventory_records, st).
             (let (record, st) = inventory_record rng clock boutique i st
              in (inventory_records @ [record], st)))
          [0..<50]"

definition inventory_loop ::
  "'s np_random \<Rightarrow> (nat \<Rightarrow> timestamp) \<Rightarrow> inventory_row list \<times> ('s \<times> nat) \<Rightarrow>
   inventory_row list \<times> ('s \<times> nat)" where
  "inventory_loop rng clock = fold (skus_loop rng clock) boutiques"

definition demo_inventory_columns :: "string list" where
  "demo_inventory_columns = [''Date'', ''Boutique_ID'', ''SKU_Code'', ''Product_Name'',
     ''Category'', ''Brand'', ''Current_Stock_Units'', ''Min_Stock_Threshold'',
     ''Max_Stock_Threshold'', ''Unit_Cost'', ''Retail_Price'', ''Last_Restock_Date'',
     ''Supplier_Lead_Time_Days'']"

definition generate_demo_data ::
  "'s np_random \<Rightarrow> (nat \<Rightarrow> timestamp) \<Rightarrow>
   sales_row list \<times> inventory_table" where
  "generate_demo_data rng clock =
     (let s = seed rng 42;
          (now, tick) = (clock 0, Suc 0);
          dates = date_range now 30;
          (sales_records, s) = sales_loop rng dates ([], s);
          sales_data = sales_records;
          (inventory_records, (s, tick)) = inventory_loop rng clock ([], (s, tick));
          inventory_data = \<lparr> inv_columns = demo_inventory_columns,
                             inv_rows = inventory_records \<rparr>
      in (sales_data, inventory_data))"

section \<open>kpi_calculator.py\<close>

subsection \<open>calculate_kpis\<close>

record kpis =
  daily_revenue :: f64
  revenue_growth :: f64
  atv :: f64
  atv_change :: f64
  conversion_rate :: f64
  conversion_change :: f64
  inventory_turnover :: f64
  low_stock_items :: nat
  stockout_risk :: nat

text \<open>
  Lines 8 to 18: the rows of "today" and of "yesterday". \<open>now\<close> is the reading of
  \<^verbatim>\<open>datetime.now()\<close> on line 9. On an empty table the maximum is \<^verbatim>\<open>NaT\<close>, which
  equals no date, so both selections are empty.
\<close>

definition kpi_days :: "timestamp \<Rightarrow> sales_row list \<Rightarrow> sales_row list \<times> sales_row list" where
  "kpi_days now sales_data =
     (let today = date_of now;
          today_data = filter (\<lambda>r. date_of (Date r) = today) sales_data;
          yesterday_data = filter (\<lambda>r. date_of (Date r) = today - 1) sales_data
      in if length today_data = 0
         then (case series_max (map Date sales_data) of
                 None \<Rightarrow> ([], [])
               | Some latest_date \<Rightarrow>
                   (let today_data =
                          filter (\<lambda>r. date_of (Date r) = date_of latest_date) sales_data;
                        prev_date = latest_date - timedelta 1;
                        yesterday_data =
                          filter (\<lambda>r. date_of (Date r) = date_of prev_date) sales_data
                    in (today_data, yesterday_data)))
         else (today_data, yesterday_data))"

text \<open>
  \<^verbatim>\<open>rows.groupby('Transaction_ID')['Revenue_USD'].sum().mean()\<close>: the mean of the
  transactions' revenues; rows without a \<open>Transaction_ID\<close> are in no group.
\<close>

definition transaction_mean :: "sales_row list \<Rightarrow> f64" where
  "transaction_mean rows =
     fmean (map (\<lambda>(t, g). column_sum (map Revenue_USD g)) (groupby_dropna Transaction_ID rows))"

text \<open>\<^verbatim>\<open>len(rows['Boutique_ID'].unique()) * 100\<close>\<close>

definition visitors :: "sales_row list \<Rightarrow> nat" where
  "visitors rows = len_unique (map Boutique_ID rows) * 100"

text \<open>
  \<^verbatim>\<open>(len(rows['Transaction_ID'].unique()) / visitors * 100) if visitors > 0 else 0\<close>,
  lines 31 to 34 and 36 to 38. The quotient is of two Python integers.
\<close>

definition conversion :: "sales_row list \<Rightarrow> py_error + f64" where
  "conversion rows =
     (let transactions = len_unique (map Transaction_ID rows);
          estimated_visitors = visitors rows
      in if estimated_visitors > 0
         then (case int_truediv transactions estimated_visitors of
                 Inl e \<Rightarrow> Inl e
               | Inr q \<Rightarrow> Inr (fmul q (Fin 100)))
         else Inr (Fin 0))"

text \<open>
  \<open>now\<close> and \<open>now30\<close> are the two readings of \<^verbatim>\<open>datetime.now()\<close>, on lines 9 and 43.
  The result is the dictionary returned, or the exception raised. Only \<open>atv\<close> and
  \<open>atv_change\<close> pass through \<^verbatim>\<open>np.isnan\<close> on their way into it (lines 58 and 59).
\<close>

definition calculate_kpis ::
  "timestamp \<Rightarrow> timestamp \<Rightarrow> sales_row list \<Rightarrow> inventory_table \<Rightarrow> py_error + kpis" where
  "calculate_kpis now now30 sales_data inventory_data =
     (let (today_data, yesterday_data) = kpi_days now sales_data;
          daily_revenue = column_sum (map Revenue_USD today_data);
          prev_revenue = column_sum (map Revenue_USD yesterday_data);
          revenue_growth =
            (if fgt prev_revenue (Fin 0)
             then fmul (fdiv (fsub daily_revenue prev_revenue) prev_revenue) (Fin 100)
             else Fin 0);
          atv = transaction_mean today_data;
          prev_atv = transaction_mean yesterday_data;
          atv_change =
            (if fgt prev_atv (Fin 0)
             then fmul (fdiv (fsub atv prev_atv) prev_atv) (Fin 100)
             else Fin 0)
      in case conversion today_data of
           Inl e \<Rightarrow> Inl e
         | Inr rate \<Rightarrow>
            (case conversion yesterday_data of
               Inl e \<Rightarrow> Inl e
             | Inr prev_conversion \<Rightarrow>
                (let conversion_rate = rate;
                     conversion_change = fsub conversion_rate prev_conversion;
                     inventory = inv_rows inventory_data;
                     total_inventory_value =
                       column_sum (map (\<lambda>i. of_int (Current_Stock_Units i) * Unit_Cost i)
                                       inventory);
                     last_30_days = filter (\<lambda>r. Date r \<ge> now30 - timedelta 30) sales_data;
                     unit_cost_mean =
                       (if inventory = [] then NaN
                        else fdiv (column_sum (map Unit_Cost inventory))
                                  (Fin (of_nat (length inventory))));
                     cogs_30_days =
                       fmul (Fin (of_int (sum_list (map Units_Sold last_30_days))))
                            unit_cost_mean;
                     annual_cogs = fmul cogs_30_days (Fin 12);
                     inventory_turnover =
                       (if fgt total_inventory_value (Fin 0)
                        then fdiv annual_cogs total_inventory_value else Fin 0);
                     low_stock_items =
                       length (filter (\<lambda>i. Current_Stock_Units i \<le> Min_Stock_Threshold i)
                                      inventory);
                     stockout_risk =
                       length (filter (\<lambda>i. Current_Stock_Units i = 0) inventory)
                 in Inr \<lparr> daily_revenue = daily_revenue,
                          revenue_growth = revenue_growth,
                          atv = (if atv \<noteq> NaN then atv else Fin 0),
                          atv_change = (if atv_change \<noteq> NaN then atv_change else Fin 0),
                          conversion_rate = conversion_rate,
                          conversion_change = conversion_change,
                          inventory_turnover = inventory_turnover,
                          low_stock_items = low_stock_items,
                          stockout_risk = stockout_risk \<rparr>)))"

subsection \<open>calculate_boutique_metrics and calculate_category_performance\<close>

record boutique_metrics =
  bm_Boutique_Name :: string
  bm_Region :: string
  Revenue :: rat
  bm_Units_Sold :: int
  Transactions :: nat
  Estimated_Visitors :: nat
  Conversion_Rate :: rat
  ATV :: "rat option"

text \<open>Lines 70 to 72. A comparison with \<^verbatim>\<open>NaT\<close>, the maximum of an empty column, is false.\<close>

definition last_7_days :: "sales_row list \<Rightarrow> sales_row list" where
  "last_7_days sales_data =
     (case series_max (map Date sales_data) of
        None \<Rightarrow> []
      | Some latest_date \<Rightarrow> filter (\<lambda>r. Date r \<ge> latest_date - timedelta 7) sales_data)"

text \<open>
  Lines 74 to 87 on one group: the three aggregations and the derived columns. The
  quotient of line 87 is not a finite number when \<open>Transactions\<close> is 0.
\<close>

definition boutique_row :: "(string \<times> string) \<times> sales_row list \<Rightarrow> boutique_metrics" where
  "boutique_row = (\<lambda>((name, region), g).
     (let revenue = sum_list (map Revenue_USD g);
          units_sold = sum_list (map Units_Sold g);
          transactions = nunique (map Transaction_ID g);
          estimated_visitors = 700
      in \<lparr> bm_Boutique_Name = name, bm_Region = region,
           Revenue = revenue, bm_Units_Sold = units_sold, Transactions = transactions,
           Estimated_Visitors = estimated_visitors,
           Conversion_Rate = of_nat transactions / of_nat estimated_visitors * 100,
           ATV = (if transactions = 0 then None else Some (revenue / of_nat transactions)) \<rparr>))"

definition calculate_boutique_metrics :: "sales_row list \<Rightarrow> boutique_metrics list" where
  "calculate_boutique_metrics sales_data =
     (let last_7_days = last_7_days sales_data;
          boutique_metrics =
            map boutique_row (groupby (\<lambda>r. (Boutique_Name r, Region r)) last_7_days)
      in sort_values_desc Revenue boutique_metrics)"



section \<open>alerts.py\<close>

record alerts =
  critical :: "string list"
  warning :: "string list"

type_synonym thresholds = "string \<rightharpoonup> rat"

definition default_thresholds :: thresholds where
  "default_thresholds = map_of
     [(''revenue_drop_pct'', 15),
      (''sales_target_miss_pct'', 20),
      (''low_stock_threshold'', 5),
      (''conversion_drop_pct'', 25),
      (''inventory_turnover_min'', 2),
      (''shrinkage_rate_max'', 3 / 2)]"

text \<open>
  Lines 30 to 67, the rules on the sales table. \<open>fmt1\<close> is the \<^verbatim>\<open>:.1f\<close> formatting of a
  float, \<open>iter\<close> the iteration order of a Python set, \<open>now\<close> the reading of
  \<^verbatim>\<open>datetime.now()\<close> on line 58. \<open>thresholds\<close> is the merged dictionary, in which
  every default key is present. A comparison with a NaN mean is false.
\<close>

definition sales_alerts ::
  "(rat \<Rightarrow> string) \<Rightarrow> (string set \<Rightarrow> string list) \<Rightarrow> timestamp \<Rightarrow>
   sales_row list \<Rightarrow> thresholds \<Rightarrow> alerts \<Rightarrow> alerts" where
  "sales_alerts fmt1 iter now sales_data thresholds alerts =
     (if length sales_data > 0
      then
        (let latest_date = date_of (Max (set (map Date sales_data)));
             today_data = filter (\<lambda>r. date_of (Date r) = latest_date) sales_data;
             week_ago = latest_date - 7;
             week_ago_data = filter (\<lambda>r. date_of (Date r) = week_ago) sales_data;
             today_revenue = sum_list (map Revenue_USD today_data);
             week_ago_revenue = sum_list (map Revenue_USD week_ago_data);
             alerts =
               (if week_ago_revenue > 0
                then (let revenue_change =
                            (today_revenue - week_ago_revenue) / week_ago_revenue * 100
                      in if revenue_change < - the (thresholds ''revenue_drop_pct'')
                         then alerts\<lparr>critical := critical alerts @
                                [''Revenue dropped '' @ fmt1 \<bar>revenue_change\<bar> @
                                 ''% vs. same day last week'']\<rparr>
                         else alerts)
                else alerts);
             boutique_revenue = groupby_sum Boutique_Name Revenue_USD today_data;
             avg_boutique_revenue = mean (map snd boutique_revenue);
             alerts =
               fold (\<lambda>(boutique, revenue) alerts.
                       if (case avg_boutique_revenue of
                             None \<Rightarrow> False
                           | Some avg \<Rightarrow> revenue < avg * (1 / 2))
                       then alerts\<lparr>warning := warning alerts @
                              [boutique @ '' revenue significantly below network average'']\<rparr>
                       else alerts)
                    boutique_revenue alerts;
             current_hour = hour_of now
         in if current_hour \<ge> 14
            then (let boutiques_with_sales = set (map Boutique_Name today_data);
                      all_boutiques = set (map Boutique_Name sales_data);
                      no_sales_boutiques = all_boutiques - boutiques_with_sales
                  in fold (\<lambda>boutique alerts.
                             alerts\<lparr>critical := critical alerts @
                               [boutique @ '' has ZERO transactions today'']\<rparr>)
                          (iter no_sales_boutiques) alerts)
            else alerts)
      else alerts)"

text \<open>
  Line 87: \<^verbatim>\<open>item.get('Boutique_ID', 'Unknown')\<close> gives the default when the frame has
  no such column.
\<close>

definition stockout_message :: "string list \<Rightarrow> inventory_row \<Rightarrow> string" where
  "stockout_message columns item =
     ''STOCKOUT: '' @ Product_Name item @ '' at '' @
     (if ''Boutique_ID'' \<in> set columns then inv_Boutique_ID item else ''Unknown'')"

text \<open>
  Line 92: the assignment \<^verbatim>\<open>inventory_data['Days_Since_Restock'] = ...\<close> writes the
  column into the frame it is given, adding it when the frame does not have it.
  \<^verbatim>\<open>.dt.days\<close> of a difference is its whole days, rounded down; it is NaN where the
  restock date is missing.
\<close>

definition set_Days_Since_Restock :: "timestamp \<Rightarrow> inventory_table \<Rightarrow> inventory_table" where
  "set_Days_Since_Restock now inventory_data =
     \<lparr> inv_columns = (if ''Days_Since_Restock'' \<in> set (inv_columns inventory_data)
                       then inv_columns inventory_data
                       else inv_columns inventory_data @ [''Days_Since_Restock'']),
       inv_rows = map (\<lambda>r. r\<lparr>Days_Since_Restock :=
                               map_option (\<lambda>d. (now - d) div day_ns) (Last_Restock_Date r)\<rparr>)
                      (inv_rows inventory_data) \<rparr>"

text \<open>
  Lines 69 to 111, the rules on the inventory table. \<open>now\<close> is the reading of
  \<^verbatim>\<open>datetime.now()\<close> on line 93. The result is the alerts and the inventory frame as
  the call leaves it.
\<close>

definition inventory_alerts ::
  "(rat \<Rightarrow> string) \<Rightarrow> timestamp \<Rightarrow> inventory_table \<Rightarrow> alerts \<Rightarrow> alerts \<times> inventory_table" where
  "inventory_alerts fmt1 now inventory_data alerts =
     (if length (inv_rows inventory_data) > 0
      then
        (let low_stock = filter (\<lambda>i. Current_Stock_Units i \<le> Min_Stock_Threshold i)
                                (inv_rows inventory_data);
             alerts =
               (if length low_stock > 0
                then alerts\<lparr>warning := warning alerts @
                       [str_nat (length low_stock) @ '' SKUs below minimum stock threshold'']\<rparr>
                else alerts);
             stockout = filter (\<lambda>i. Current_Stock_Units i = 0) (inv_rows inventory_data);
             alerts =
               (if length stockout > 0
                then fold (\<lambda>item alerts.
                             alerts\<lparr>critical := critical alerts @
                               [stockout_message (inv_columns inventory_data) item]\<rparr>)
                          (take 5 stockout) alerts
                else alerts)
         in if ''Last_Restock_Date'' \<in> set (inv_columns inventory_data)
            then
              (let inventory_data = set_Days_Since_Restock now inventory_data;
                   dead_stock =
                     filter (\<lambda>i. (case Days_Since_Restock i of
                                      None \<Rightarrow> False | Some d \<Rightarrow> d > 180) \<and>
                                   Current_Stock_Units i > 0)
                            (inv_rows inventory_data)
               in if length dead_stock > 0
                  then
                    (let dead_stock_value =
                           sum_list (map (\<lambda>i. of_int (Current_Stock_Units i) * Unit_Cost i)
                                         dead_stock);
                         total_inventory_value =
                           sum_list (map (\<lambda>i. of_int (Current_Stock_Units i) * Unit_Cost i)
                                         (inv_rows inventory_data));
                         dead_stock_pct =
                           (if total_inventory_value > 0
                            then dead_stock_value / total_inventory_value * 100 else 0)
                     in if dead_stock_pct > 10
                        then (alerts\<lparr>warning := warning alerts @
                                [''Dead stock (>180 days) represents '' @ fmt1 dead_stock_pct @
                                 ''% of inventory value'']\<rparr>, inventory_data)
                        else (alerts, inventory_data))
                  else (alerts, inventory_data))
            else (alerts, inventory_data))
      else (alerts, inventory_data))"

text \<open>
  \<open>check_alerts\<close> returns the alerts; the model returns with them the two frames as the
  call leaves them, since the caller keeps a reference to both. \<open>now_hour\<close> and
  \<open>now_restock\<close> are the readings of \<^verbatim>\<open>datetime.now()\<close> on lines 58 and 93; the reading
  of line 29 is not used.
\<close>

definition check_alerts ::
  "(rat \<Rightarrow> string) \<Rightarrow> (string set \<Rightarrow> string list) \<Rightarrow> timestamp \<Rightarrow> timestamp \<Rightarrow>
   sales_row list \<Rightarrow> inventory_table \<Rightarrow> thresholds \<Rightarrow>
   alerts \<times> sales_row list \<times> inventory_table" where
  "check_alerts fmt1 iter now_hour now_restock sales_data inventory_data thresholds =
     (let alerts = \<lparr> critical = [], warning = [] \<rparr>;
          thresholds = default_thresholds ++ thresholds;
          alerts = sales_alerts fmt1 iter now_hour sales_data thresholds alerts;
          (alerts, inventory_data) = inventory_alerts fmt1 now_restock inventory_data alerts
      in (alerts, sales_data, inventory_data))"

section \<open>Example inputs\<close>

text \<open>Concrete tables on which the theorems below are evaluated.\<close>

definition mk_sale :: "timestamp \<Rightarrow> string \<Rightarrow> string \<Rightarrow> string \<Rightarrow> string \<Rightarrow> string \<Rightarrow> int \<Rightarrow> rat \<Rightarrow> sales_row" where
  "mk_sale d bid bname reg cat txn units revenue =
     \<lparr> Date = d, Boutique_ID = bid, Boutique_Name = bname, Region = reg,
       SKU_Code = ''SKU1000'', Product_Category = cat, Brand = ''Rolex'', Units_Sold = units,
       Revenue_Local_Currency = revenue, Revenue_USD = revenue, Transaction_ID = Some txn,
       Sales_Associate_ID = ''SA100'', Customer_Type = ''New'', Payment_Method = ''Cash'' \<rparr>"

definition two_day_sales :: "sales_row list" where
  "two_day_sales =
     [mk_sale (20000 * day_ns + 36000000000000) ''BTQ001'' ''Dubai Mall'' ''Middle East'' ''Watches'' ''TXN1'' 1 3000,
      mk_sale (20001 * day_ns + 39600000000000) ''BTQ002'' ''Tokyo Ginza'' ''Asia'' ''Jewelry'' ''TXN3'' 2 8000,
      mk_sale (20000 * day_ns + 36000000000000) ''BTQ001'' ''Dubai Mall'' ''Middle East'' ''Jewelry'' ''TXN1'' 1 2000,
      mk_sale (20000 * day_ns + 61200000000000) ''BTQ002'' ''Tokyo Ginza'' ''Asia'' ''Watches'' ''TXN2'' 1 5000]"

definition no_inventory :: inventory_table where
  "no_inventory = \<lparr> inv_columns = [], inv_rows = [] \<rparr>"


definition week_sales :: "sales_row list" where
  "week_sales =
     [mk_sale (20010 * day_ns + 36000000000000) ''BTQ001'' ''Dubai Mall'' ''Middle East'' ''Watches'' ''TXN1'' 1 6000,
      mk_sale (20003 * day_ns + 36000000000000) ''BTQ001'' ''Dubai Mall'' ''Middle East'' ''Jewelry'' ''TXN2'' 1 3000,
      mk_sale (20002 * day_ns + 36000000000000) ''BTQ002'' ''Tokyo Ginza'' ''Asia'' ''Watches'' ''TXN3'' 2 4000,
      mk_sale (20002 * day_ns + 36000000000000) ''BTQ001'' ''Dubai Mall'' ''Middle East'' ''Watches'' ''TXN4'' 1 1000]"



definition mk_item :: "string \<Rightarrow> string \<Rightarrow> int \<Rightarrow> rat \<Rightarrow> timestamp option \<Rightarrow> inventory_row" where
  "mk_item bid pname stock cost restock =
     \<lparr> inv_Date = 20010 * day_ns, inv_Boutique_ID = bid, inv_SKU_Code = ''SKU1000'',
       Product_Name = pname, Category = ''Watches'', inv_Brand = ''Rolex'',
       Current_Stock_Units = stock, Min_Stock_Threshold = 5, Max_Stock_Threshold = 20,
       Unit_Cost = cost, Retail_Price = 2 * cost, Last_Restock_Date = restock,
       Supplier_Lead_Time_Days = 7, Days_Since_Restock = None \<rparr>"

definition seven_stockouts :: inventory_table where
  "seven_stockouts =
     \<lparr> inv_columns = inventory_columns @ [''Unit_Cost'', ''Last_Restock_Date''],
       inv_rows =
         [mk_item ''BTQ001'' ''Luxury Item 0'' 0 3000 (Some (20000 * day_ns)),
          mk_item ''BTQ001'' ''Luxury Item 1'' 4 3000 (Some (19000 * day_ns)),
          mk_item ''BTQ002'' ''Luxury Item 2'' 0 3000 None,
          mk_item ''BTQ002'' ''Luxury Item 3'' 0 3000 (Some (20000 * day_ns)),
          mk_item ''BTQ003'' ''Luxury Item 4'' 0 3000 (Some (20000 * day_ns)),
          mk_item ''BTQ003'' ''Luxury Item 5'' 0 3000 (Some (20000 * day_ns)),
          mk_item ''BTQ004'' ''Luxury Item 6'' 0 3000 (Some (20000 * day_ns)),
          mk_item ''BTQ004'' ''Luxury Item 7'' 0 3000 (Some (20000 * day_ns))] \<rparr>"

text \<open>
  The format \<^verbatim>\<open>{x:.1f}\<close> on an exact value: one decimal, a tie going to the even digit.
\<close>

definition round_half_even :: "rat \<Rightarrow> nat" where
  "round_half_even q =
     (let f = nat (floor q); d = q - of_int (floor q)
      in if d < 1 / 2 then f else if d > 1 / 2 then f + 1 else if even f then f else f + 1)"

definition fmt_1f :: "rat \<Rightarrow> string" where
  "fmt_1f x =
     (let n = round_half_even (\<bar>x\<bar> * 10)
      in (if x < 0 then ''-'' else []) @ str_nat (n div 10) @ ''.'' @ str_nat (n mod 10))"

definition afternoon :: timestamp where
  "afternoon = 20010 * day_ns + 15 * 3600000000000"

type_synonym cells = "(string \<times> string list) list"

definition cells_pandas :: "(cells, cells) pandas" where
  "cells_pandas =
     \<lparr> read_csv = (\<lambda>f. Inr (file_body f)),
       read_excel = (\<lambda>f. Inl ''Excel file format cannot be determined''),
       columns_of = map fst,
       to_datetime = Inr \<rparr>"

definition sales_upload :: "cells uploaded_file" where
  "sales_upload =
     \<lparr> file_name = ''sales.csv'',
       file_body = [(''Boutique_ID'', [''BTQ001'']), (''Boutique_Name'', [''Dubai Mall'']),
                    (''SKU_Code'', [''SKU1000'']), (''Product_Category'', [''Watches'']),
                    (''Brand'', [''Rolex'']), (''Units_Sold'', [''1'']),
                    (''Revenue_USD'', [''5000'']), (''Transaction_ID'', [''TXN1'']),
                    (''Customer_Type'', [''New''])] \<rparr>"

definition inventory_upload :: "cells uploaded_file" where
  "inventory_upload =
     \<lparr> file_name = ''inventory.csv'',
       file_body = [(''Boutique_ID'', [''BTQ001'']), (''SKU_Code'', [''SKU1000'']),
                    (''Product_Name'', [''Luxury Item 0'']), (''Category'', [''Watches'']),
                    (''Brand'', [''Rolex'']), (''Current_Stock_Units'', [''0'']),
                    (''Min_Stock_Threshold'', [''5'']), (''Retail_Price'', [''9000''])] \<rparr>"

definition lowest_draws :: "unit np_random" where
  "lowest_draws = \<lparr> seed = (\<lambda>n. ()), randint = (\<lambda>low high s. (low, s)),
                     choice = (\<lambda>xs p s. (hd xs, s)) \<rparr>"

definition clock_from :: "timestamp \<Rightarrow> nat \<Rightarrow> timestamp" where
  "clock_from t n = t + 1000 * int n"



definition missing_id_sale :: "sales_row list" where
  "missing_id_sale =
     [(mk_sale (20000 * day_ns + 36000000000000) ''BTQ001'' ''Dubai Mall'' ''Middle East'' ''Watches'' ''TXN1'' 1 5000)
        \<lparr>Transaction_ID := None\<rparr>]"

section \<open>Loop states up to erased columns\<close>

text \<open>
  Two loop states agree up to \<open>erase\<close> when their generator states are equal and their
  records are equal once \<open>erase\<close> has been applied to each.
\<close>

definition same_but :: "('r \<Rightarrow> 'r) \<Rightarrow> 'r list \<times> 'st \<Rightarrow> 'r list \<times> 'st \<Rightarrow> bool" where
  "same_but erase a b = (snd a = snd b \<and> map erase (fst a) = map erase (fst b))"

definition no_sale_clock :: "sales_row \<Rightarrow> sales_row" where
  "no_sale_clock r = r\<lparr>Date := 0, Transaction_ID := None\<rparr>"

definition no_item_clock :: "inventory_row \<Rightarrow> inventory_row" where
  "no_item_clock i = i\<lparr>inv_Date := 0, Last_Restock_Date := None\<rparr>"

section \<open>Auxiliary lemmas\<close>

subsection \<open>Dates\<close>

lemma day_ns_pos: "day_ns > 0" by (simp add: day_ns_def)

lemma date_of_mono: "s \<le> t \<Longrightarrow> date_of s \<le> date_of t"
  unfolding date_of_def using day_ns_pos by (simp add: zdiv_mono1)

lemma date_of_minus_days: "date_of (t - timedelta n) = date_of t - n"
proof -
  have "(t + (- n) * day_ns) div day_ns = t div day_ns + (- n)"
    using day_ns_pos by (subst div_mult_self1) simp_all
  then show ?thesis by (simp add: date_of_def timedelta_def)
qed

subsection \<open>Grouping and sums\<close>

lemma sum_filter_partition:
  fixes col :: "'r \<Rightarrow> rat"
  assumes "finite K" "key ` set rows \<subseteq> K"
  shows "(\<Sum>k\<in>K. sum_list (map col (filter (\<lambda>r. key r = k) rows))) = sum_list (map col rows)"
  using assms(2)
proof (induction rows)
  case Nil
  then show ?case by simp
next
  case (Cons r rows)
  then have inK: "key r \<in> K" and sub: "key ` set rows \<subseteq> K" by auto
  have "(\<Sum>k\<in>K. sum_list (map col (filter (\<lambda>x. key x = k) (r # rows)))) =
        (\<Sum>k\<in>K. (if k = key r then col r else 0) + sum_list (map col (filter (\<lambda>x. key x = k) rows)))"
    by (rule sum.cong) auto
  also have "\<dots> = (\<Sum>k\<in>K. (if k = key r then col r else 0)) +
                   (\<Sum>k\<in>K. sum_list (map col (filter (\<lambda>x. key x = k) rows)))"
    by (simp add: sum.distrib)
  also have "(\<Sum>k\<in>K. (if k = key r then col r else 0)) = col r"
    using assms(1) inK by simp
  finally show ?case using Cons.IH [OF sub] by simp
qed

lemma groupby_sum_values:
  "map snd (groupby_sum key col rows) =
     map (\<lambda>k. sum_list (map col (filter (\<lambda>r. key r = k) rows))) (sort (remdups (map key rows)))"
  by (simp add: groupby_sum_def groupby_def comp_def)


lemma length_sort_remdups: "length (sort (remdups xs)) = card (set xs)"
  by (simp add: length_remdups_card_conv)

lemma in_set_nonempty: "x \<in> set xs \<Longrightarrow> xs \<noteq> []"
  by (cases xs) simp_all


lemma set_groupby:
  "set (groupby key rows) = (\<lambda>k. (k, filter (\<lambda>r. key r = k) rows)) ` key ` set rows"
  by (simp add: groupby_def)


lemma set_sort_values_desc: "set (sort_values_desc col rows) = set rows"
  by (simp add: sort_values_desc_def)





subsection \<open>The KPI days of a two-day table\<close>

lemma kpi_days_two_days:
  assumes days: "\<forall>r\<in>set sales_data. date_of (Date r) = A \<or> date_of (Date r) = A + 1"
    and neB: "filter (\<lambda>r. date_of (Date r) = A + 1) sales_data \<noteq> []"
    and now: "date_of now \<noteq> A"
  shows "kpi_days now sales_data =
           (filter (\<lambda>r. date_of (Date r) = A + 1) sales_data,
            filter (\<lambda>r. date_of (Date r) = A) sales_data)"
proof (cases "date_of now = A + 1")
  case True
  then show ?thesis using neB by (simp add: kpi_days_def Let_def)
next
  case False
  have none: "filter (\<lambda>r. date_of (Date r) = date_of now) sales_data = []"
    using days now False by (auto simp: filter_empty_conv)
  from neB obtain rB where rB: "rB \<in> set sales_data" "date_of (Date rB) = A + 1"
    by (auto simp: filter_empty_conv)
  then have ne: "map Date sales_data \<noteq> []" by auto
  define latest where "latest = Max (set (map Date sales_data))"
  have "latest \<in> set (map Date sales_data)"
    unfolding latest_def using ne by (intro Max_in) auto
  then obtain rl where rl: "rl \<in> set sales_data" "Date rl = latest" by auto
  have "Date rB \<le> latest"
    unfolding latest_def using rB(1) by (intro Max_ge) auto
  then have "A + 1 \<le> date_of latest" using date_of_mono rB(2) by metis
  moreover have "date_of latest = A \<or> date_of latest = A + 1" using days rl by auto
  ultimately have dl: "date_of latest = A + 1" by linarith
  have sm: "series_max (map Date sales_data) = Some latest"
    using ne by (simp add: series_max_def latest_def)
  show ?thesis
    unfolding kpi_days_def Let_def
    by (simp only: none sm option.case date_of_minus_days dl list.size if_True) simp
qed

subsection \<open>Boutique metrics\<close>


lemma boutique_metrics_rows:
  "set (calculate_boutique_metrics sales_data) =
     (\<lambda>k. boutique_row (k, filter (\<lambda>r. (Boutique_Name r, Region r) = k) (last_7_days sales_data)))
       ` (\<lambda>r. (Boutique_Name r, Region r)) ` set (last_7_days sales_data)"
  by (simp add: calculate_boutique_metrics_def Let_def set_sort_values_desc set_groupby image_image)

lemma boutique_row_key:
  "(bm_Boutique_Name (boutique_row (k, g)), bm_Region (boutique_row (k, g))) = k"
  by (cases k) (simp add: boutique_row_def Let_def)




lemma boutique_row_values:
  "Revenue (boutique_row (k, g)) = sum_list (map Revenue_USD g)"
  "bm_Units_Sold (boutique_row (k, g)) = sum_list (map Units_Sold g)"
  "Transactions (boutique_row (k, g)) = nunique (map Transaction_ID g)"
  "ATV (boutique_row (k, g)) =
     (if nunique (map Transaction_ID g) = 0 then None
      else Some (sum_list (map Revenue_USD g) / of_nat (nunique (map Transaction_ID g))))"
  by (cases k; simp add: boutique_row_def Let_def)+


subsection \<open>Alerts\<close>

lemma fold_append_critical:
  "fold (\<lambda>item alerts. alerts\<lparr>critical := critical alerts @ [f item]\<rparr>) xs a =
     a\<lparr>critical := critical a @ map f xs\<rparr>"
  by (induction xs arbitrary: a) simp_all

lemma stockout_fold:
  "critical (if length stockout > 0
             then fold (\<lambda>item alerts. alerts\<lparr>critical := critical alerts @ [f item]\<rparr>)
                       (take 5 stockout) a
             else a) = critical a @ map f (take 5 stockout)"
  by (simp add: fold_append_critical)

lemma inventory_alerts_critical:
  "critical (fst (inventory_alerts fmt1 now inventory_data a)) =
     critical a @ map (stockout_message (inv_columns inventory_data))
                      (take 5 (filter (\<lambda>i. Current_Stock_Units i = 0) (inv_rows inventory_data)))"
  by (simp add: inventory_alerts_def Let_def fold_append_critical)

lemma inventory_alerts_frame:
  "snd (inventory_alerts fmt1 now inventory_data a) =
     (if inv_rows inventory_data \<noteq> [] \<and> ''Last_Restock_Date'' \<in> set (inv_columns inventory_data)
      then set_Days_Since_Restock now inventory_data else inventory_data)"
  by (simp add: inventory_alerts_def Let_def)

subsection \<open>Loading\<close>

lemma load_table_errors:
  "load_table iter pd required_columns file_type kind file errors =
     (fst (load_table iter pd required_columns file_type kind file []),
      errors @ snd (load_table iter pd required_columns file_type kind file []))"
  by (simp add: load_table_def Let_def split: sum.splits)

lemma validate_excel_missing:
  "c \<in> set required_columns \<Longrightarrow> c \<notin> set df_columns \<Longrightarrow>
   validate_excel iter df_columns required_columns file_type =
     [file_type @ '' is missing columns: '' @
      join '', '' (iter (set required_columns - set df_columns))]"
  by (auto simp: validate_excel_def)

lemma load_table_no_Date:
  assumes "read_file pd file = Inr data" "''Date'' \<notin> set (columns_of pd data)"
    "''Date'' \<in> set required_columns"
  shows "load_table iter pd required_columns file_type kind file [] =
           (None, [file_type @ '' is missing columns: '' @
                     join '', '' (iter (set required_columns - set (columns_of pd data))),
                   ''Error loading '' @ kind @ '' file: '' @ key_error ''Date''])"
  using assms validate_excel_missing [OF assms(3) assms(2), of iter file_type]
  by (simp add: load_table_def)

subsection \<open>The generator and the clock\<close>

lemma fold_same_but:
  assumes "list_all2 Q xs ys"
    and "\<And>x y a b. Q x y \<Longrightarrow> same_but e a b \<Longrightarrow> same_but e (f x a) (g y b)"
    and "same_but e a b"
  shows "same_but e (fold f xs a) (fold g ys b)"
  using assms(1,3)
proof (induction xs ys arbitrary: a b rule: list_all2_induct)
  case Nil
  then show ?case by simp
next
  case (Cons x xs y ys)
  then show ?case using assms(2) by simp
qed

lemma fold_same_but_eq:
  assumes "\<And>x a b. same_but e a b \<Longrightarrow> same_but e (f x a) (g x b)"
    and "same_but e a b"
  shows "same_but e (fold f xs a) (fold g xs b)"
  by (rule fold_same_but [where Q = "(=)"]) (use assms in \<open>simp_all add: list_all2_same\<close>)

lemma sales_record_clock:
  "snd (sales_record rng d b r i s) = snd (sales_record rng d' b r i s) \<and>
   no_sale_clock (fst (sales_record rng d b r i s)) =
   no_sale_clock (fst (sales_record rng d' b r i s))"
  by (simp add: sales_record_def split_def Let_def no_sale_clock_def)

lemma transactions_loop_clock:
  fixes rng :: "'s np_random"
  assumes "same_but no_sale_clock a b"
  shows "same_but no_sale_clock (transactions_loop rng d bq rg n a)
           (transactions_loop rng d' bq rg n b)"
  unfolding transactions_loop_def
proof (rule fold_same_but_eq [OF _ assms])
  fix x a b
  assume "same_but no_sale_clock a (b :: sales_row list \<times> 's)"
  then show "same_but no_sale_clock
          ((case a of (sales_records, s) \<Rightarrow>
             (let (record, s) = sales_record rng d bq rg x s
              in (sales_records @ [record], s))))
          ((case b of (sales_records, s) \<Rightarrow>
             (let (record, s) = sales_record rng d' bq rg x s
              in (sales_records @ [record], s))))"
    using sales_record_clock [of rng d bq rg x "snd b" d']
    by (cases a; cases b) (simp add: same_but_def split_def Let_def)
qed

lemma boutiques_loop_clock:
  fixes rng :: "'s np_random"
  assumes "same_but no_sale_clock a b"
  shows "same_but no_sale_clock (boutiques_loop rng d a) (boutiques_loop rng d' b)"
  unfolding boutiques_loop_def
proof (rule fold_same_but_eq [OF _ assms])
  fix x :: "string \<times> string" and a b :: "sales_row list \<times> 's"
  assume ab: "same_but no_sale_clock a b"
  obtain bq rg where x: "x = (bq, rg)" by (cases x)
  obtain ra sa where a: "a = (ra, sa)" by (cases a)
  obtain rb sb where b: "b = (rb, sb)" by (cases b)
  from ab have s: "sb = sa" and r: "same_but no_sale_clock (ra, s') (rb, s')" for s'
    by (simp_all add: same_but_def a b)
  show "same_but no_sale_clock
          ((case x of (boutique, region) \<Rightarrow> \<lambda>(sales_records, s).
             (let (num_transactions, s) = randint rng 5 16 s
              in transactions_loop rng d boutique region num_transactions
                   (sales_records, s))) a)
          ((case x of (boutique, region) \<Rightarrow> \<lambda>(sales_records, s).
             (let (num_transactions, s) = randint rng 5 16 s
              in transactions_loop rng d' boutique region num_transactions
                   (sales_records, s))) b)"
    unfolding x a b s by (simp add: split_def Let_def transactions_loop_clock [OF r])
qed

lemma sales_loop_clock:
  assumes "length dates = length dates'" "same_but no_sale_clock a b"
  shows "same_but no_sale_clock (sales_loop rng dates a) (sales_loop rng dates' b)"
  unfolding sales_loop_def
proof (rule fold_same_but [where Q = "\<lambda>_ _. True", OF _ _ assms(2)])
  show "list_all2 (\<lambda>_ _. True) dates dates'"
    using assms(1) by (simp add: list_all2_conv_all_nth)
qed (rule boutiques_loop_clock)

lemma inventory_record_clock:
  "snd (inventory_record rng clock b i st) = snd (inventory_record rng clock' b i st) \<and>
   no_item_clock (fst (inventory_record rng clock b i st)) =
   no_item_clock (fst (inventory_record rng clock' b i st))"
  by (cases st) (simp add: inventory_record_def split_def Let_def no_item_clock_def)

lemma skus_loop_clock:
  fixes rng :: "'s np_random"
  assumes "same_but no_item_clock a b"
  shows "same_but no_item_clock (skus_loop rng clock bq a) (skus_loop rng clock' bq b)"
  unfolding skus_loop_def
proof (rule fold_same_but_eq [OF _ assms])
  fix x a b
  assume "same_but no_item_clock a (b :: inventory_row list \<times> ('s \<times> nat))"
  then show "same_but no_item_clock
          ((case a of (inventory_records, st) \<Rightarrow>
             (let (record, st) = inventory_record rng clock bq x st
              in (inventory_records @ [record], st))))
          ((case b of (inventory_records, st) \<Rightarrow>
             (let (record, st) = inventory_record rng clock' bq x st
              in (inventory_records @ [record], st))))"
    using inventory_record_clock [of rng clock bq x "snd b" clock']
    by (cases a; cases b) (simp add: same_but_def split_def Let_def)
qed

lemma inventory_loop_clock:
  assumes "same_but no_item_clock a b"
  shows "same_but no_item_clock (inventory_loop rng clock a) (inventory_loop rng clock' b)"
  unfolding inventory_loop_def
  by (rule fold_same_but_eq [OF _ assms]) (rule skus_loop_clock)

lemma fold_keeps_head:
  assumes "\<And>x a. fst a \<noteq> [] \<Longrightarrow> fst (f x a) \<noteq> [] \<and> hd (fst (f x a)) = hd (fst a)"
    and "fst a \<noteq> []"
  shows "fst (fold f xs a) \<noteq> [] \<and> hd (fst (fold f xs a)) = hd (fst a)"
  using assms(2)
proof (induction xs arbitrary: a)
  case Nil
  then show ?case by simp
next
  case (Cons x xs)
  from assms(1) [OF Cons.prems]
  have step: "fst (f x a) \<noteq> []" "hd (fst (f x a)) = hd (fst a)" by simp_all
  from Cons.IH [OF step(1)] step(2) show ?case by simp
qed

lemma skus_loop_keeps_head:
  fixes rng :: "'s np_random"
  assumes "fst a \<noteq> []"
  shows "fst (skus_loop rng clock bq a) \<noteq> [] \<and> hd (fst (skus_loop rng clock bq a)) = hd (fst a)"
  unfolding skus_loop_def
proof (rule fold_keeps_head [OF _ assms])
  fix x :: nat and a :: "inventory_row list \<times> ('s \<times> nat)"
  assume "fst a \<noteq> []"
  then show "fst (case a of (inventory_records, st) \<Rightarrow>
             (let (record, st) = inventory_record rng clock bq x st
              in (inventory_records @ [record], st))) \<noteq> [] \<and>
        hd (fst (case a of (inventory_records, st) \<Rightarrow>
             (let (record, st) = inventory_record rng clock bq x st
              in (inventory_records @ [record], st)))) = hd (fst a)"
    by (cases a) (simp add: split_def Let_def)
qed

lemma inventory_record_Date:
  "inv_Date (fst (inventory_record rng clock bq i (s, tick))) = clock tick"
  by (simp add: inventory_record_def split_def Let_def)

lemma skus_loop_first:
  "fst (skus_loop rng clock bq ([], (s, tick))) \<noteq> [] \<and>
   inv_Date (hd (fst (skus_loop rng clock bq ([], (s, tick))))) = clock tick"
proof -
  let ?step = "\<lambda>i (inventory_records, st).
             (let (record, st) = inventory_record rng clock bq i st
              in (inventory_records @ [record], st))"
  let ?a = "?step 0 ([], (s, tick))"
  have up: "[0..<50] = 0 # [1..<50]" by (simp add: upt_conv_Cons)
  have a: "fst ?a = [fst (inventory_record rng clock bq 0 (s, tick))]"
    by (simp add: split_def Let_def)
  then have ne: "fst ?a \<noteq> []" by simp
  have "skus_loop rng clock bq ([], (s, tick)) = fold ?step [1..<50] ?a"
    unfolding skus_loop_def up by simp
  moreover have "fst (fold ?step [1..<50] ?a) \<noteq> [] \<and> hd (fst (fold ?step [1..<50] ?a)) = hd (fst ?a)"
  proof (rule fold_keeps_head [OF _ ne])
    fix x :: nat and a :: "inventory_row list \<times> ('a \<times> nat)"
    assume "fst a \<noteq> []"
    then show "fst (?step x a) \<noteq> [] \<and> hd (fst (?step x a)) = hd (fst a)"
      by (cases a) (simp add: split_def Let_def)
  qed
  ultimately show ?thesis
    using a inventory_record_Date [of rng clock bq 0 s tick] by simp
qed

lemma inventory_loop_first:
  "fst (inventory_loop rng clock ([], (s, tick))) \<noteq> [] \<and>
   inv_Date (hd (fst (inventory_loop rng clock ([], (s, tick))))) = clock tick"
proof -
  obtain b bs where bq: "boutiques = b # bs" by (simp add: boutiques_def)
  let ?a = "skus_loop rng clock b ([], (s, tick))"
  have ne: "fst ?a \<noteq> []" by (rule skus_loop_first [THEN conjunct1])
  have "inventory_loop rng clock ([], (s, tick)) = fold (skus_loop rng clock) bs ?a"
    unfolding inventory_loop_def bq by simp
  moreover have "fst (fold (skus_loop rng clock) bs ?a) \<noteq> [] \<and>
                 hd (fst (fold (skus_loop rng clock) bs ?a)) = hd (fst ?a)"
    by (rule fold_keeps_head [OF _ ne]) (rule skus_loop_keeps_head)
  ultimately show ?thesis using skus_loop_first [of rng clock b s tick] by simp
qed

lemma first_inventory_Date:
  "inv_rows (snd (generate_demo_data rng clock)) \<noteq> [] \<and>
   inv_Date (hd (inv_rows (snd (generate_demo_data rng clock)))) = clock 1"
  using inventory_loop_first [of rng clock _ "Suc 0"]
  by (simp add: generate_demo_data_def Let_def split_def)

subsection \<open>Floating point\<close>

lemma max_f64_large: "10 ^ 300 \<le> max_f64"
  by (simp add: max_f64_def)

lemma max_f64_pos: "0 < max_f64"
  using max_f64_large by (rule less_le_trans [rotated]) simp

lemma fl_Fin: "\<bar>r\<bar> \<le> max_f64 \<Longrightarrow> fl r = Fin r"
  by (auto simp: fl_def)

lemma fl_small: "\<bar>r\<bar> \<le> 10 ^ 300 \<Longrightarrow> fl r = Fin r"
  using max_f64_large by (intro fl_Fin) linarith

lemma max_f64_small: "max_f64 < 2 * 10 ^ 308"
  by (simp add: max_f64_def)




text \<open>Without their guards the quotients are not numbers, or raise.\<close>

lemma zero_divisors:
  "fdiv (Fin 0) (Fin 0) = NaN" "fdiv (Fin 1) (Fin 0) = PInf"
  "int_truediv a 0 = Inl ZeroDivisionError"
  by (simp_all add: inf_of_sign_def int_truediv_def)

subsection \<open>Distinct values\<close>

lemma set_map_filter_id: "set (List.map_filter (\<lambda>c. c) xs) = {x. Some x \<in> set xs}"
  by (induction xs) (auto split: option.splits)

lemma set_map_filter_key: "set (List.map_filter key rows) = {k. Some k \<in> key ` set rows}"
  by (induction rows) (auto split: option.splits)

lemma nunique_card: "nunique xs = card {x. Some x \<in> set xs}"
  by (simp add: nunique_def length_remdups_card_conv set_map_filter_id)


lemma nunique_pos_iff: "nunique xs \<ge> 1 \<longleftrightarrow> (\<exists>x. Some x \<in> set xs)"
proof -
  have fin: "finite {x. Some x \<in> set xs}"
    unfolding set_map_filter_id [symmetric] by simp
  have "nunique xs \<ge> 1 \<longleftrightarrow> {x. Some x \<in> set xs} \<noteq> {}"
    unfolding nunique_card using fin by (simp add: Suc_le_eq card_gt_0_iff)
  then show ?thesis by auto
qed

lemma len_unique_card: "len_unique xs = card (set xs)"
  by (simp add: len_unique_def length_remdups_card_conv)

lemma len_unique_le: "len_unique xs \<le> length xs"
  by (simp add: len_unique_def)

lemma len_unique_pos: "xs \<noteq> [] \<Longrightarrow> len_unique xs \<ge> 1"
  by (cases xs) (simp_all add: len_unique_card Suc_le_eq card_gt_0_iff)


subsection \<open>Means, conversions and the KPI dictionary\<close>

lemma fold_fadd_replicate:
  assumes "0 \<le> c" "0 \<le> a" "a + of_nat n * c \<le> max_f64"
  shows "fold fadd (replicate n (Fin c)) (Fin a) = Fin (a + of_nat n * c)"
  using assms(2,3)
proof (induction n arbitrary: a)
  case 0
  then show ?case by (simp del: fold_replicate)
next
  case (Suc n)
  have le: "c + a \<le> a + of_nat (Suc n) * c"
    using assms(1) by (simp add: algebra_simps mult_nonneg_nonneg)
  have step: "fadd (Fin c) (Fin a) = Fin (c + a)"
    using assms(1) Suc.prems le by (simp add: fl_Fin)
  have ih: "fold fadd (replicate n (Fin c)) (Fin (c + a)) = Fin (c + a + of_nat n * c)"
    using assms(1) Suc.prems by (intro Suc.IH) (simp_all add: algebra_simps)
  have "fold fadd (replicate (Suc n) (Fin c)) (Fin a) =
        fold fadd (replicate n (Fin c)) (fadd (Fin c) (Fin a))"
    by (simp only: replicate_Suc fold.simps comp_apply)
  also have "\<dots> = Fin (c + a + of_nat n * c)" by (simp only: step ih)
  also have "c + a + of_nat n * c = a + of_nat (Suc n) * c" by (simp add: algebra_simps)
  finally show ?case .
qed

lemma transaction_mean_const:
  assumes keys: "set (map Transaction_ID rows) = Some ` K" and fin: "finite K" and ne: "K \<noteq> {}"
    and sums: "\<forall>t\<in>K. sum_list (map Revenue_USD
                 (filter (\<lambda>r. Transaction_ID r = Some t) rows)) = c"
    and c: "0 \<le> c" "of_nat (card K) * c \<le> max_f64"
  shows "transaction_mean rows = Fin c"
proof -
  let ?ks = "sort (remdups (List.map_filter Transaction_ID rows))"
  have sK: "set (List.map_filter Transaction_ID rows) = K"
    unfolding set_map_filter_key using keys by auto
  then have set_ks: "set ?ks = K" by simp
  have "distinct ?ks" by simp
  have len: "length ?ks = card K"
    unfolding sK [symmetric] by (simp add: length_remdups_card_conv)
  have n: "card K \<noteq> 0" using fin ne by simp
  have cle: "c \<le> max_f64"
  proof -
    have "1 \<le> (of_nat (card K) :: rat)" using n by (simp add: Suc_le_eq)
    then have "c \<le> of_nat (card K) * c" using c(1) by (simp add: mult_le_cancel_right1)
    then show ?thesis using c(2) by simp
  qed
  have flc: "fl c = Fin c" using c(1) cle by (simp add: fl_Fin)
  have vals: "map (\<lambda>(t, g). column_sum (map Revenue_USD g)) (groupby_dropna Transaction_ID rows)
                = replicate (card K) (Fin c)"
  proof -
    have "map (\<lambda>(t, g). column_sum (map Revenue_USD g)) (groupby_dropna Transaction_ID rows)
            = map (\<lambda>k. column_sum (map Revenue_USD (filter (\<lambda>r. Transaction_ID r = Some k) rows))) ?ks"
      by (simp add: groupby_dropna_def comp_def)
    also have "\<dots> = map (\<lambda>k. Fin c) ?ks"
      by (rule map_cong) (use set_ks sums flc in \<open>simp_all add: column_sum_def\<close>)
    also have "\<dots> = replicate (card K) (Fin c)"
      by (simp only: map_replicate_const len)
    finally show ?thesis .
  qed
  have "fold fadd (replicate (card K) (Fin c)) (Fin 0) = Fin (0 + of_nat (card K) * c)"
    using c by (intro fold_fadd_replicate) simp_all
  then have "fmean (replicate (card K) (Fin c)) = fdiv (Fin (of_nat (card K) * c)) (Fin (of_nat (card K)))"
    using n by (simp add: fmean_def)
  also have "\<dots> = Fin c" using n flc by simp
  finally show ?thesis by (simp add: transaction_mean_def vals)
qed

lemma conversion_returns:
  assumes "of_nat (len_unique (map Transaction_ID rows)) \<le> max_f64"
  shows "\<exists>c. conversion rows = Inr (Fin c) \<and> 0 \<le> c \<and>
             c \<le> of_nat (len_unique (map Transaction_ID rows)) \<and>
             (visitors rows = 0 \<longrightarrow> c = 0)"
proof (cases "visitors rows = 0")
  case True
  then show ?thesis by (simp add: conversion_def)
next
  case False
  let ?t = "len_unique (map Transaction_ID rows)"
  let ?b = "len_unique (map Boutique_ID rows)"
  have v: "visitors rows = ?b * 100" by (simp add: visitors_def)
  have b: "?b \<ge> 1" using False v by (cases ?b) simp_all
  let ?q = "(of_nat ?t :: rat) / of_nat (visitors rows)"
  have q0: "0 \<le> ?q" by simp
  have q100: "?q * 100 = of_nat ?t / of_nat ?b" using b by (simp add: v)
  have "(of_nat ?t :: rat) / of_nat ?b \<le> of_nat ?t / 1"
    using b by (intro frac_le) simp_all
  then have qt: "?q * 100 \<le> of_nat ?t" using q100 by simp
  have "?q * 1 \<le> ?q * 100" using q0 by (intro mult_left_mono) simp_all
  then have "?q \<le> ?q * 100" by simp
  then have qmax: "?q \<le> max_f64" "?q * 100 \<le> max_f64" using qt assms by linarith+
  have div: "int_truediv ?t (visitors rows) = Inr (Fin ?q)"
    using False qmax(1) by (simp add: int_truediv_def)
  have "fmul (Fin ?q) (Fin 100) = Fin (?q * 100)"
    using q0 qmax(2) by (simp add: fl_Fin)
  then have "conversion rows = Inr (Fin (?q * 100))"
    using False div by (simp add: conversion_def Let_def)
  then show ?thesis using q0 qt False by auto
qed



lemma calculate_kpis_fields:
  assumes kd: "kpi_days now sales_data = (today_data, yesterday_data)"
    and ct: "conversion today_data = Inr ct" and cy: "conversion yesterday_data = Inr cy"
  shows "\<exists>k. calculate_kpis now now30 sales_data inventory_data = Inr k \<and>
     revenue_growth k =
       (if fgt (column_sum (map Revenue_USD yesterday_data)) (Fin 0)
        then fmul (fdiv (fsub (column_sum (map Revenue_USD today_data))
                              (column_sum (map Revenue_USD yesterday_data)))
                        (column_sum (map Revenue_USD yesterday_data))) (Fin 100)
        else Fin 0) \<and>
     atv k = (if transaction_mean today_data \<noteq> NaN then transaction_mean today_data else Fin 0) \<and>
     atv_change k =
       (let c = (if fgt (transaction_mean yesterday_data) (Fin 0)
                 then fmul (fdiv (fsub (transaction_mean today_data)
                                       (transaction_mean yesterday_data))
                                 (transaction_mean yesterday_data)) (Fin 100)
                 else Fin 0)
        in if c \<noteq> NaN then c else Fin 0) \<and>
     conversion_rate k = ct \<and>
     conversion_change k = fsub ct cy"
  by (simp add: calculate_kpis_def Let_def kd ct cy)

lemma conversion_small:
  assumes "length rows \<le> 1000"
  shows "\<exists>c. conversion rows = Inr (Fin c)"
proof -
  have "len_unique (map Transaction_ID rows) \<le> 1000"
    using assms len_unique_le [of "map Transaction_ID rows"] by simp
  then have "(of_nat (len_unique (map Transaction_ID rows)) :: rat) \<le> 1000"
    by simp
  moreover have "(1000 :: rat) \<le> 10 ^ 300"
    by simp
  ultimately have "(of_nat (len_unique (map Transaction_ID rows)) :: rat) \<le> max_f64"
    using max_f64_large by linarith
  from conversion_returns [OF this] show ?thesis by blast
qed





lemma conversion_Nil: "conversion [] = Inr (Fin 0)"
  by (simp add: conversion_def visitors_def len_unique_def)

lemma conversion_few_ids:
  assumes keys: "set (map Transaction_ID rows) = K" and fin: "finite K" and c: "card K \<le> 1000"
  shows "\<exists>c. conversion rows = Inr (Fin c)"
proof -
  have "len_unique (map Transaction_ID rows) = card K"
    unfolding len_unique_card keys ..
  then have "(of_nat (len_unique (map Transaction_ID rows)) :: rat) \<le> 1000"
    using c by simp
  moreover have "(1000 :: rat) \<le> 10 ^ 300"
    by simp
  ultimately have "(of_nat (len_unique (map Transaction_ID rows)) :: rat) \<le> max_f64"
    using max_f64_large by linarith
  from conversion_returns [OF this] show ?thesis by blast
qed

lemma kd_two_day_A:
  "kpi_days (20000 * day_ns + 36000000000000) two_day_sales =
     ([two_day_sales ! 0, two_day_sales ! 2, two_day_sales ! 3], [])"
  by code_simp


section \<open>Properties\<close>

subsection \<open>Record Validator\<close>

text \<open>
  C3. \<open>validate_excel\<close> returns the empty list exactly when every required column is a
  column of the table. When a required column is missing, it returns exactly one string:
  the label, the text " is missing columns: " and the missing columns, each once, joined
  by ", ". The function is total: no branch of the source raises.
\<close>

theorem validate_excel_empty_iff_subset:
  assumes "\<And>S. finite S \<Longrightarrow> set (iter S) = S \<and> distinct (iter S)"
  shows "(validate_excel iter df_columns required_columns file_type = []
            \<longleftrightarrow> set required_columns \<subseteq> set df_columns) \<and>
         (\<not> set required_columns \<subseteq> set df_columns \<longrightarrow>
            (\<exists>ms. set ms = set required_columns - set df_columns \<and> distinct ms \<and>
               validate_excel iter df_columns required_columns file_type =
                 [file_type @ '' is missing columns: '' @ join '', '' ms]))"
proof -
  let ?M = "set required_columns - set df_columns"
  have fin: "finite ?M" by simp
  from assms [OF fin] have it: "set (iter ?M) = ?M" "distinct (iter ?M)" by simp_all
  have empty: "?M = {} \<longleftrightarrow> set required_columns \<subseteq> set df_columns" by blast
  show ?thesis
  proof (cases "?M = {}")
    case True
    then show ?thesis using empty by (simp add: validate_excel_def)
  next
    case False
    then have "validate_excel iter df_columns required_columns file_type =
                 [file_type @ '' is missing columns: '' @ join '', '' (iter ?M)]"
      by (simp add: validate_excel_def)
    then show ?thesis using False empty it by auto
  qed
qed

theorem validate_excel_empty_iff_subset_witness:
  "validate_excel sorted_list_of_set [''Date'', ''Brand''] [''Date'', ''Region'', ''Brand'', ''SKU_Code'']
      ''Sales Report'' \<noteq> [] \<and>
   (\<exists>ms. set ms = {''Region'', ''SKU_Code''} \<and> distinct ms \<and>
      validate_excel sorted_list_of_set [''Date'', ''Brand''] [''Date'', ''Region'', ''Brand'', ''SKU_Code'']
        ''Sales Report'' = [''Sales Report'' @ '' is missing columns: '' @ join '', '' ms])"
proof -
  have h: "\<And>S::string set. finite S \<Longrightarrow>
             set (sorted_list_of_set S) = S \<and> distinct (sorted_list_of_set S)"
    by simp
  have s: "set [''Date'', ''Region'', ''Brand'', ''SKU_Code''] - set [''Date'', ''Brand'']
             = {''Region'', ''SKU_Code''}"
    by auto
  have n: "\<not> set [''Date'', ''Region'', ''Brand'', ''SKU_Code''] \<subseteq> set [''Date'', ''Brand'']"
    by simp
  show ?thesis
    using validate_excel_empty_iff_subset [of sorted_list_of_set
        "[''Date'', ''Brand'']" "[''Date'', ''Region'', ''Brand'', ''SKU_Code'']" "''Sales Report''", OF h]
      n unfolding s by blast
qed

subsection \<open>KPI Engine\<close>




text \<open>
  C2 (as amended). Take a sales table with exactly two days of data: day \<open>A\<close>, with two
  transactions of 5,000 each (10,000 in all), and day \<open>A + 1\<close>, with one transaction of
  8,000. Whenever the wall-clock date is not day \<open>A\<close> (it may be day \<open>A + 1\<close> or any date
  without rows), \<open>calculate_kpis\<close> returns \<open>revenue_growth = -20\<close>, \<open>atv = 8000\<close> and
  \<open>atv_change = 60\<close>.
\<close>

theorem calculate_kpis_two_day_scenario:
  assumes days: "\<forall>r\<in>set sales_data. date_of (Date r) = A \<or> date_of (Date r) = A + 1"
    and txA: "set (map Transaction_ID (filter (\<lambda>r. date_of (Date r) = A) sales_data)) =
                {Some t1, Some t2}"
             "t1 \<noteq> t2"
    and revA: "\<forall>t\<in>{t1, t2}. sum_list (map Revenue_USD
                 (filter (\<lambda>r. date_of (Date r) = A \<and> Transaction_ID r = Some t) sales_data)) = 5000"
    and txB: "set (map Transaction_ID (filter (\<lambda>r. date_of (Date r) = A + 1) sales_data)) =
                {Some t3}"
    and revB: "sum_list (map Revenue_USD (filter (\<lambda>r. date_of (Date r) = A + 1) sales_data)) = 8000"
    and now: "date_of now \<noteq> A"
  shows "\<exists>k. calculate_kpis now now30 sales_data inventory_data = Inr k \<and>
             revenue_growth k = Fin (- 20) \<and> atv k = Fin 8000 \<and> atv_change k = Fin 60"
proof -
  let ?dA = "filter (\<lambda>r. date_of (Date r) = A) sales_data"
  let ?dB = "filter (\<lambda>r. date_of (Date r) = A + 1) sales_data"
  have neB: "?dB \<noteq> []"
  proof
    assume e: "?dB = []"
    show False using txB unfolding e by simp
  qed
  have kd: "kpi_days now sales_data = (?dB, ?dA)"
    using days neB now by (rule kpi_days_two_days)
  have small: "(1000000 :: rat) \<le> max_f64"
  proof -
    have "(1000000 :: rat) \<le> 10 ^ 300" by simp
    then show ?thesis using max_f64_large by linarith
  qed
  have allB: "\<forall>r\<in>set ?dB. Transaction_ID r = Some t3" using txB by auto
  then have fB: "filter (\<lambda>r. Transaction_ID r = Some t3) ?dB = ?dB"
    by (simp only: filter_id_conv)
  have kB: "set (map Transaction_ID ?dB) = Some ` {t3}" using txB by simp
  have sB: "\<forall>t\<in>{t3}. sum_list (map Revenue_USD (filter (\<lambda>r. Transaction_ID r = Some t) ?dB)) = 8000"
    by (simp add: fB revB del: filter_filter)
  have mB: "transaction_mean ?dB = Fin 8000"
    using kB _ _ sB by (rule transaction_mean_const) (use small in simp_all)
  have kA: "set (map Transaction_ID ?dA) = Some ` {t1, t2}" using txA(1) by simp
  have sA: "\<forall>t\<in>{t1, t2}. sum_list (map Revenue_USD (filter (\<lambda>r. Transaction_ID r = Some t) ?dA)) = 5000"
    using revA by simp
  have mA: "transaction_mean ?dA = Fin 5000"
    using kA _ _ sA by (rule transaction_mean_const) (use small txA(2) in simp_all)
  have "(\<Sum>t\<in>{Some t1, Some t2}. sum_list (map Revenue_USD (filter (\<lambda>r. Transaction_ID r = t) ?dA)))
          = sum_list (map Revenue_USD ?dA)"
    by (rule sum_filter_partition) (use txA(1) in auto)
  then have rA: "sum_list (map Revenue_USD ?dA) = 10000" using sA txA(2) by simp
  have cA: "column_sum (map Revenue_USD ?dA) = Fin 10000"
    unfolding column_sum_def rA by (rule fl_small) simp
  have cB: "column_sum (map Revenue_USD ?dB) = Fin 8000"
    unfolding column_sum_def revB by (rule fl_small) simp
  obtain ct where ct: "conversion ?dB = Inr (Fin ct)"
    using conversion_few_ids [OF txB] by auto
  obtain cy where cy: "conversion ?dA = Inr (Fin cy)"
    using conversion_few_ids [OF txA(1)] txA(2) by auto
  have f1: "fl (- 2000) = Fin (- 2000)" by (rule fl_small) simp
  have f2: "fl (- (1 / 5)) = Fin (- (1 / 5))" by (rule fl_small) simp
  have f3: "fl (- 20) = Fin (- 20)" by (rule fl_small) simp
  have f4: "fl 3000 = Fin 3000" by (rule fl_small) simp
  have f5: "fl (3 / 5) = Fin (3 / 5)" by (rule fl_small) simp
  have f6: "fl 60 = Fin 60" by (rule fl_small) simp
  from calculate_kpis_fields [OF kd ct cy, of now30 inventory_data]
  show ?thesis
    unfolding mA mB cA cB by (auto simp: fsub_def f1 f2 f3 f4 f5 f6)
qed

theorem calculate_kpis_two_day_scenario_witness:
  "\<exists>k. calculate_kpis (20030 * day_ns) (20030 * day_ns) two_day_sales no_inventory = Inr k \<and>
       revenue_growth k = Fin (- 20) \<and> atv k = Fin 8000 \<and> atv_change k = Fin 60"
proof -
  have h1: "\<forall>r\<in>set two_day_sales. date_of (Date r) = 20000 \<or> date_of (Date r) = 20000 + 1"
    by code_simp
  have h2: "set (map Transaction_ID (filter (\<lambda>r. date_of (Date r) = 20000) two_day_sales))
              = {Some ''TXN1'', Some ''TXN2''}"
    by code_simp
  have h3: "''TXN1'' \<noteq> ''TXN2''" by simp
  have h4: "\<forall>t\<in>{''TXN1'', ''TXN2''}. sum_list (map Revenue_USD
              (filter (\<lambda>r. date_of (Date r) = 20000 \<and> Transaction_ID r = Some t) two_day_sales)) = 5000"
    by code_simp
  have h5: "set (map Transaction_ID (filter (\<lambda>r. date_of (Date r) = 20000 + 1) two_day_sales))
              = {Some ''TXN3''}"
    by code_simp
  have h6: "sum_list (map Revenue_USD (filter (\<lambda>r. date_of (Date r) = 20000 + 1) two_day_sales)) = 8000"
    by code_simp
  have h7: "date_of (20030 * day_ns) \<noteq> 20000" by code_simp
  show ?thesis by (rule calculate_kpis_two_day_scenario [OF h1 h2 h3 h4 h5 h6 h7])
qed

text \<open>
  The claim as stated only asks that day \<open>A + 1\<close> is not the wall-clock date. When the
  wall-clock date is day \<open>A\<close>, the table has rows for the current date, so day \<open>A\<close> is
  "today", the day before it has no rows, and the result is \<open>revenue_growth = 0\<close>,
  \<open>atv = 5000\<close>, \<open>atv_change = 0\<close>.
\<close>

theorem calculate_kpis_two_day_counterexample:
  "map date_of (map Date two_day_sales) = [20000, 20001, 20000, 20000] \<and>
   map Transaction_ID two_day_sales = [Some ''TXN1'', Some ''TXN3'', Some ''TXN1'', Some ''TXN2''] \<and>
   map Revenue_USD two_day_sales = [3000, 8000, 2000, 5000] \<and>
   date_of (20000 * day_ns + 36000000000000) \<noteq> 20001 \<and>
   map_sum id (\<lambda>k. (revenue_growth k, atv k, atv_change k))
     (calculate_kpis (20000 * day_ns + 36000000000000) (20030 * day_ns) two_day_sales no_inventory) =
     Inr (Fin 0, Fin 5000, Fin 0)"
proof -
  have a: "map date_of (map Date two_day_sales) = [20000, 20001, 20000, 20000]" by code_simp
  have b: "map Transaction_ID two_day_sales =
             [Some ''TXN1'', Some ''TXN3'', Some ''TXN1'', Some ''TXN2'']" by code_simp
  have c: "map Revenue_USD two_day_sales = [3000, 8000, 2000, 5000]" by code_simp
  have d: "date_of (20000 * day_ns + 36000000000000) \<noteq> 20001" by code_simp
  let ?t = "[two_day_sales ! 0, two_day_sales ! 2, two_day_sales ! 3]"
  obtain ct where ct: "conversion ?t = Inr (Fin ct)"
    using conversion_small [of ?t] by auto
  have kt: "set (map Transaction_ID ?t) = Some ` {''TXN1'', ''TXN2''}" by code_simp
  have st: "\<forall>t\<in>{''TXN1'', ''TXN2''}. sum_list (map Revenue_USD
              (filter (\<lambda>r. Transaction_ID r = Some t) ?t)) = 5000" by code_simp
  have small: "(1000000 :: rat) \<le> max_f64"
  proof -
    have "(1000000 :: rat) \<le> 10 ^ 300" by simp
    then show ?thesis using max_f64_large by linarith
  qed
  have mt: "transaction_mean ?t = Fin 5000"
    using kt _ _ st by (rule transaction_mean_const) (use small in simp_all)
  have my: "transaction_mean [] = NaN"
    by (simp add: transaction_mean_def groupby_dropna_def fmean_def)
  have cy: "column_sum (map Revenue_USD []) = Fin 0"
    using max_f64_pos by (simp add: column_sum_def fl_def)
  from calculate_kpis_fields [OF kd_two_day_A ct conversion_Nil, of "20030 * day_ns" no_inventory]
  have e: "map_sum id (\<lambda>k. (revenue_growth k, atv k, atv_change k))
     (calculate_kpis (20000 * day_ns + 36000000000000) (20030 * day_ns) two_day_sales no_inventory) =
     Inr (Fin 0, Fin 5000, Fin 0)"
    unfolding mt my cy by auto
  show ?thesis by (intro conjI a b c d e)
qed

subsection \<open>Boutique and category aggregators\<close>




text \<open>
  C9 (as amended). In the table returned by \<open>calculate_boutique_metrics\<close>, a row has
  \<open>Transactions \<ge> 1\<close> exactly when some window row of its (Boutique_Name, Region) pair
  has a Transaction_ID that is not blank, and \<open>ATV\<close> is the quotient
  \<open>Revenue / Transactions\<close> when \<open>Transactions\<close> is not 0, and is not a finite number when
  it is 0. When no row of the sales table has a blank Transaction_ID, every row of the
  result has \<open>Transactions \<ge> 1\<close> and \<open>ATV\<close> is that quotient.
\<close>

theorem calculate_boutique_metrics_transactions_pos:
  "(\<forall>m\<in>set (calculate_boutique_metrics sales_data).
      (Transactions m \<ge> 1 \<longleftrightarrow>
         (\<exists>r\<in>set (last_7_days sales_data).
            Boutique_Name r = bm_Boutique_Name m \<and> Region r = bm_Region m \<and>
            Transaction_ID r \<noteq> None)) \<and>
      ATV m = (if Transactions m = 0 then None
               else Some (Revenue m / of_nat (Transactions m)))) \<and>
   ((\<forall>r\<in>set sales_data. Transaction_ID r \<noteq> None) \<longrightarrow>
      (\<forall>m\<in>set (calculate_boutique_metrics sales_data).
         Transactions m \<ge> 1 \<and> ATV m = Some (Revenue m / of_nat (Transactions m))))"
proof -
  have sub: "set (last_7_days sales_data) \<subseteq> set sales_data"
    by (auto simp: last_7_days_def split: option.splits)
  have a: "\<forall>m\<in>set (calculate_boutique_metrics sales_data).
      (Transactions m \<ge> 1 \<longleftrightarrow>
         (\<exists>r\<in>set (last_7_days sales_data).
            Boutique_Name r = bm_Boutique_Name m \<and> Region r = bm_Region m \<and>
            Transaction_ID r \<noteq> None)) \<and>
      ATV m = (if Transactions m = 0 then None
               else Some (Revenue m / of_nat (Transactions m)))"
  proof
    fix m assume "m \<in> set (calculate_boutique_metrics sales_data)"
    then obtain r0 where r0: "r0 \<in> set (last_7_days sales_data)"
      and m: "m = boutique_row ((Boutique_Name r0, Region r0),
                 filter (\<lambda>r. (Boutique_Name r, Region r) = (Boutique_Name r0, Region r0))
                        (last_7_days sales_data))"
      unfolding boutique_metrics_rows by auto
    let ?g = "filter (\<lambda>r. (Boutique_Name r, Region r) = (Boutique_Name r0, Region r0))
                     (last_7_days sales_data)"
    have key: "bm_Boutique_Name m = Boutique_Name r0" "bm_Region m = Region r0"
      using boutique_row_key [of "(Boutique_Name r0, Region r0)" ?g] unfolding m by simp_all
    have "(\<exists>x. Some x \<in> set (map Transaction_ID ?g)) \<longleftrightarrow>
          (\<exists>r\<in>set (last_7_days sales_data).
             Boutique_Name r = Boutique_Name r0 \<and> Region r = Region r0 \<and>
             Transaction_ID r \<noteq> None)"
    proof
      assume "\<exists>x. Some x \<in> set (map Transaction_ID ?g)"
      then obtain x where "Some x \<in> Transaction_ID ` set ?g"
        unfolding set_map ..
      then obtain r where rg: "r \<in> set ?g" and e: "Some x = Transaction_ID r"
        by blast
      have "Transaction_ID r \<noteq> None"
        unfolding e [symmetric] by simp
      with rg show "\<exists>r\<in>set (last_7_days sales_data).
             Boutique_Name r = Boutique_Name r0 \<and> Region r = Region r0 \<and>
             Transaction_ID r \<noteq> None"
        by auto
    next
      assume "\<exists>r\<in>set (last_7_days sales_data).
             Boutique_Name r = Boutique_Name r0 \<and> Region r = Region r0 \<and>
             Transaction_ID r \<noteq> None"
      then obtain r where rw: "r \<in> set (last_7_days sales_data)"
        and rk: "Boutique_Name r = Boutique_Name r0" "Region r = Region r0"
        and rt: "Transaction_ID r \<noteq> None"
        by blast
      from rt obtain x where x: "Transaction_ID r = Some x"
        by (cases "Transaction_ID r") simp_all
      have r: "r \<in> set ?g" using rw rk by simp
      have "Some x \<in> Transaction_ID ` set ?g"
        unfolding x [symmetric] using r by (rule imageI)
      then show "\<exists>x. Some x \<in> set (map Transaction_ID ?g)"
        by (intro exI [of _ x]) (simp only: set_map)
    qed
    then have t: "Transactions m \<ge> 1 \<longleftrightarrow>
          (\<exists>r\<in>set (last_7_days sales_data).
             Boutique_Name r = bm_Boutique_Name m \<and> Region r = bm_Region m \<and>
             Transaction_ID r \<noteq> None)"
      unfolding key unfolding m boutique_row_values nunique_pos_iff .
    have v: "ATV m = (if Transactions m = 0 then None
               else Some (Revenue m / of_nat (Transactions m)))"
      unfolding m boutique_row_values ..
    show "(Transactions m \<ge> 1 \<longleftrightarrow>
         (\<exists>r\<in>set (last_7_days sales_data).
            Boutique_Name r = bm_Boutique_Name m \<and> Region r = bm_Region m \<and>
            Transaction_ID r \<noteq> None)) \<and>
      ATV m = (if Transactions m = 0 then None
               else Some (Revenue m / of_nat (Transactions m)))"
      using t v by (rule conjI)
  qed
  have b: "(\<forall>r\<in>set sales_data. Transaction_ID r \<noteq> None) \<longrightarrow>
      (\<forall>m\<in>set (calculate_boutique_metrics sales_data).
         Transactions m \<ge> 1 \<and> ATV m = Some (Revenue m / of_nat (Transactions m)))"
  proof (intro impI ballI)
    fix m
    assume all: "\<forall>r\<in>set sales_data. Transaction_ID r \<noteq> None"
      and mem: "m \<in> set (calculate_boutique_metrics sales_data)"
    then obtain r0 where r0: "r0 \<in> set (last_7_days sales_data)"
      and m: "m = boutique_row ((Boutique_Name r0, Region r0),
                 filter (\<lambda>r. (Boutique_Name r, Region r) = (Boutique_Name r0, Region r0))
                        (last_7_days sales_data))"
      unfolding boutique_metrics_rows by auto
    let ?g = "filter (\<lambda>r. (Boutique_Name r, Region r) = (Boutique_Name r0, Region r0))
                     (last_7_days sales_data)"
    have key: "bm_Boutique_Name m = Boutique_Name r0" "bm_Region m = Region r0"
      using boutique_row_key [of "(Boutique_Name r0, Region r0)" ?g] unfolding m by simp_all
    have "Transaction_ID r0 \<noteq> None" using all r0 sub by blast
    then have "\<exists>r\<in>set (last_7_days sales_data).
            Boutique_Name r = bm_Boutique_Name m \<and> Region r = bm_Region m \<and>
            Transaction_ID r \<noteq> None"
      unfolding key using r0 by blast
    then have pos: "Transactions m \<ge> 1" using a mem by blast
    then have nz: "Transactions m \<noteq> 0" by simp
    have "ATV m = (if Transactions m = 0 then None
               else Some (Revenue m / of_nat (Transactions m)))"
      using a mem by blast
    then have "ATV m = Some (Revenue m / of_nat (Transactions m))"
      using nz by (simp only: if_False)
    then show "Transactions m \<ge> 1 \<and> ATV m = Some (Revenue m / of_nat (Transactions m))"
      using pos by (intro conjI)
  qed
  show ?thesis using a b by (rule conjI)
qed

theorem calculate_boutique_metrics_transactions_pos_witness:
  "map Transaction_ID two_day_sales =
     [Some ''TXN1'', Some ''TXN3'', Some ''TXN1'', Some ''TXN2''] \<and>
   Transactions (calculate_boutique_metrics two_day_sales ! 0) \<ge> 1 \<and>
   ATV (calculate_boutique_metrics two_day_sales ! 0) =
     Some (Revenue (calculate_boutique_metrics two_day_sales ! 0) /
           of_nat (Transactions (calculate_boutique_metrics two_day_sales ! 0)))"
proof -
  have ids: "map Transaction_ID two_day_sales =
     [Some ''TXN1'', Some ''TXN3'', Some ''TXN1'', Some ''TXN2'']"
    by code_simp
  have all: "\<forall>r\<in>set two_day_sales. Transaction_ID r \<noteq> None"
    by code_simp
  have m: "calculate_boutique_metrics two_day_sales ! 0 \<in> set (calculate_boutique_metrics two_day_sales)"
    by code_simp
  note T = calculate_boutique_metrics_transactions_pos [of two_day_sales]
  from T [THEN conjunct2] all m
  have "Transactions (calculate_boutique_metrics two_day_sales ! 0) \<ge> 1 \<and>
   ATV (calculate_boutique_metrics two_day_sales ! 0) =
     Some (Revenue (calculate_boutique_metrics two_day_sales ! 0) /
           of_nat (Transactions (calculate_boutique_metrics two_day_sales ! 0)))"
    by blast
  then show ?thesis using ids by (intro conjI) (elim conjE, assumption)+
qed

text \<open>
  The claim as stated counts on every sales row carrying a Transaction_ID. A workbook
  whose Sales sheet has a row with a blank Transaction_ID cell passes \<open>validate_excel\<close>,
  which looks at column names only; the \<open>nunique\<close> aggregation of line 77 skips the blank
  cell, so the group of that row has \<open>Transactions = 0\<close> and line 87 divides by zero.
\<close>

theorem calculate_boutique_metrics_blank_id_counterexample:
  "missing_id_sale \<noteq> [] \<and>
   map Transaction_ID missing_id_sale = [None] \<and>
   map Revenue_USD missing_id_sale = [5000] \<and>
   map Transactions (calculate_boutique_metrics missing_id_sale) = [0] \<and>
   map ATV (calculate_boutique_metrics missing_id_sale) = [None]"
  by code_simp




subsection \<open>Alert Engine\<close>

text \<open>
  C5. For every inventory table, the critical list returned by \<open>check_alerts\<close> is the
  critical alerts of the sales rules followed by the stockout messages, and these are
  the messages of the first 5 rows with \<open>Current_Stock_Units = 0\<close>, in table order: at
  most 5, however many such rows there are. Each message names the row's product and its
  boutique (\<open>Boutique_ID\<close>, or "Unknown" when the table has no such column).
\<close>

theorem check_alerts_stockout_cap:
  "critical (fst (check_alerts fmt1 iter now_hour now_restock sales_data inventory_data thresholds)) =
     critical (sales_alerts fmt1 iter now_hour sales_data (default_thresholds ++ thresholds)
                 \<lparr> critical = [], warning = [] \<rparr>) @
     map (\<lambda>item. ''STOCKOUT: '' @ Product_Name item @ '' at '' @
                  (if ''Boutique_ID'' \<in> set (inv_columns inventory_data)
                   then inv_Boutique_ID item else ''Unknown''))
         (take 5 (filter (\<lambda>i. Current_Stock_Units i = 0) (inv_rows inventory_data))) \<and>
   length (take 5 (filter (\<lambda>i. Current_Stock_Units i = 0) (inv_rows inventory_data))) \<le> 5"
proof -
  have "stockout_message (inv_columns inventory_data) =
          (\<lambda>item. ''STOCKOUT: '' @ Product_Name item @ '' at '' @
                  (if ''Boutique_ID'' \<in> set (inv_columns inventory_data)
                   then inv_Boutique_ID item else ''Unknown''))"
    by (rule ext) (simp only: stockout_message_def)
  then show ?thesis
    using inventory_alerts_critical [of fmt1 now_restock inventory_data
            "sales_alerts fmt1 iter now_hour sales_data (default_thresholds ++ thresholds)
                 \<lparr> critical = [], warning = [] \<rparr>"]
    by (simp add: check_alerts_def Let_def split_def)
qed

theorem check_alerts_stockout_cap_witness:
  "map Current_Stock_Units (inv_rows seven_stockouts) = [0, 4, 0, 0, 0, 0, 0, 0] \<and>
   critical (fst (check_alerts fmt_1f sorted_list_of_set afternoon (20010 * day_ns)
                    week_sales seven_stockouts Map.empty)) =
     [''Tokyo Ginza has ZERO transactions today'',
      ''STOCKOUT: Luxury Item 0 at BTQ001'', ''STOCKOUT: Luxury Item 2 at BTQ002'',
      ''STOCKOUT: Luxury Item 3 at BTQ002'', ''STOCKOUT: Luxury Item 4 at BTQ003'',
      ''STOCKOUT: Luxury Item 5 at BTQ003'']"
proof -
  have rows: "map Current_Stock_Units (inv_rows seven_stockouts) = [0, 4, 0, 0, 0, 0, 0, 0]"
    by (simp add: seven_stockouts_def mk_item_def)
  have pre: "critical (sales_alerts fmt_1f sorted_list_of_set afternoon week_sales
                         (default_thresholds ++ Map.empty) \<lparr> critical = [], warning = [] \<rparr>) =
             [''Tokyo Ginza has ZERO transactions today'']"
    by code_simp
  have msgs: "map (\<lambda>item. ''STOCKOUT: '' @ Product_Name item @ '' at '' @
                  (if ''Boutique_ID'' \<in> set (inv_columns seven_stockouts)
                   then inv_Boutique_ID item else ''Unknown''))
         (take 5 (filter (\<lambda>i. Current_Stock_Units i = 0) (inv_rows seven_stockouts))) =
     [''STOCKOUT: Luxury Item 0 at BTQ001'', ''STOCKOUT: Luxury Item 2 at BTQ002'',
      ''STOCKOUT: Luxury Item 3 at BTQ002'', ''STOCKOUT: Luxury Item 4 at BTQ003'',
      ''STOCKOUT: Luxury Item 5 at BTQ003'']"
    by (simp add: seven_stockouts_def mk_item_def inventory_columns_def)
  show ?thesis
    using check_alerts_stockout_cap [of fmt_1f sorted_list_of_set afternoon "20010 * day_ns"
                 week_sales seven_stockouts Map.empty]
    unfolding pre msgs using rows by simp
qed

text \<open>
  C8 (as amended). \<open>check_alerts\<close> never modifies the sales table, and it leaves the
  inventory table as it was when the table is empty or has no \<open>Last_Restock_Date\<close>
  column. Otherwise it writes one column into the caller's inventory table,
  \<open>Days_Since_Restock\<close> (added when absent, overwritten when present), holding the whole
  days between the clock reading and each row's restock date; no other column is added
  and no other cell changes.
\<close>

theorem check_alerts_frame:
  "fst (snd (check_alerts fmt1 iter now_hour now_restock sales_data inventory_data thresholds))
     = sales_data \<and>
   map (\<lambda>r. r\<lparr>Days_Since_Restock := None\<rparr>)
       (inv_rows (snd (snd (check_alerts fmt1 iter now_hour now_restock sales_data
                              inventory_data thresholds)))) =
   map (\<lambda>r. r\<lparr>Days_Since_Restock := None\<rparr>) (inv_rows inventory_data) \<and>
   (inv_rows inventory_data = [] \<or> ''Last_Restock_Date'' \<notin> set (inv_columns inventory_data) \<longrightarrow>
      snd (snd (check_alerts fmt1 iter now_hour now_restock sales_data inventory_data thresholds))
        = inventory_data) \<and>
   (inv_rows inventory_data \<noteq> [] \<and> ''Last_Restock_Date'' \<in> set (inv_columns inventory_data) \<longrightarrow>
      inv_columns (snd (snd (check_alerts fmt1 iter now_hour now_restock sales_data
                               inventory_data thresholds))) =
        (if ''Days_Since_Restock'' \<in> set (inv_columns inventory_data)
         then inv_columns inventory_data
         else inv_columns inventory_data @ [''Days_Since_Restock'']) \<and>
      map Days_Since_Restock
          (inv_rows (snd (snd (check_alerts fmt1 iter now_hour now_restock sales_data
                                 inventory_data thresholds)))) =
        map (\<lambda>r. map_option (\<lambda>d. (now_restock - d) div day_ns) (Last_Restock_Date r))
            (inv_rows inventory_data))"
proof -
  let ?a = "sales_alerts fmt1 iter now_hour sales_data (default_thresholds ++ thresholds)
              \<lparr> critical = [], warning = [] \<rparr>"
  have s: "fst (snd (check_alerts fmt1 iter now_hour now_restock sales_data inventory_data thresholds))
             = sales_data"
    by (simp add: check_alerts_def Let_def split_def)
  have i: "snd (snd (check_alerts fmt1 iter now_hour now_restock sales_data inventory_data thresholds))
             = snd (inventory_alerts fmt1 now_restock inventory_data ?a)"
    by (simp add: check_alerts_def Let_def split_def)
  show ?thesis
    unfolding s i inventory_alerts_frame
    by (simp add: set_Days_Since_Restock_def comp_def)
qed

theorem check_alerts_frame_witness:
  "snd (snd (check_alerts fmt_1f sorted_list_of_set afternoon (20010 * day_ns)
               week_sales no_inventory Map.empty)) = no_inventory \<and>
   inv_columns (snd (snd (check_alerts fmt_1f sorted_list_of_set afternoon (20010 * day_ns)
                            week_sales seven_stockouts Map.empty))) =
     inv_columns seven_stockouts @ [''Days_Since_Restock''] \<and>
   map Days_Since_Restock
       (inv_rows (snd (snd (check_alerts fmt_1f sorted_list_of_set afternoon
                              (20010 * day_ns) week_sales seven_stockouts Map.empty)))) =
     [Some 10, Some 1010, None, Some 10, Some 10, Some 10, Some 10, Some 10] \<and>
   fst (snd (check_alerts fmt_1f sorted_list_of_set afternoon (20010 * day_ns)
               week_sales seven_stockouts Map.empty)) = week_sales"
proof -
  have e: "inv_rows no_inventory = []" by (simp add: no_inventory_def)
  have n: "inv_rows seven_stockouts \<noteq> [] \<and> ''Last_Restock_Date'' \<in> set (inv_columns seven_stockouts)"
    by (simp add: seven_stockouts_def inventory_columns_def)
  have d: "''Days_Since_Restock'' \<notin> set (inv_columns seven_stockouts)"
    by (simp add: seven_stockouts_def inventory_columns_def)
  have v: "map (\<lambda>r. map_option (\<lambda>d. (20010 * day_ns - d) div day_ns) (Last_Restock_Date r))
            (inv_rows seven_stockouts) =
           [Some 10, Some 1010, None, Some 10, Some 10, Some 10, Some 10, Some 10]"
    by (simp add: seven_stockouts_def mk_item_def day_ns_def)
  show ?thesis
    using check_alerts_frame [of fmt_1f sorted_list_of_set afternoon "20010 * day_ns" week_sales
                 no_inventory Map.empty]
          check_alerts_frame [of fmt_1f sorted_list_of_set afternoon "20010 * day_ns" week_sales
                 seven_stockouts Map.empty]
          e n d v
    by simp
qed

text \<open>
  The claim as stated fails: on a non-empty inventory table with a \<open>Last_Restock_Date\<close>
  column, the table after the call is not the table before it, for it has gained the
  column \<open>Days_Since_Restock\<close>.
\<close>

theorem check_alerts_mutates_inventory_counterexample:
  "snd (snd (check_alerts fmt_1f sorted_list_of_set afternoon (20010 * day_ns)
               week_sales seven_stockouts Map.empty)) \<noteq> seven_stockouts \<and>
   ''Days_Since_Restock'' \<notin> set (inv_columns seven_stockouts) \<and>
   ''Days_Since_Restock'' \<in> set (inv_columns (snd (snd (check_alerts fmt_1f sorted_list_of_set
        afternoon (20010 * day_ns) week_sales seven_stockouts Map.empty))))"
proof -
  have i: "snd (snd (check_alerts fmt_1f sorted_list_of_set afternoon (20010 * day_ns)
               week_sales seven_stockouts Map.empty)) =
           snd (inventory_alerts fmt_1f (20010 * day_ns) seven_stockouts
                  (sales_alerts fmt_1f sorted_list_of_set afternoon week_sales
                     (default_thresholds ++ Map.empty) \<lparr> critical = [], warning = [] \<rparr>))"
    by (simp add: check_alerts_def Let_def split_def)
  have d: "''Days_Since_Restock'' \<notin> set (inv_columns seven_stockouts)"
    by (simp add: seven_stockouts_def inventory_columns_def)
  have n: "inv_rows seven_stockouts \<noteq> [] \<and> ''Last_Restock_Date'' \<in> set (inv_columns seven_stockouts)"
    by (simp add: seven_stockouts_def inventory_columns_def)
  have c: "inv_columns (set_Days_Since_Restock (20010 * day_ns) seven_stockouts) =
             inv_columns seven_stockouts @ [''Days_Since_Restock'']"
    using d by (simp add: set_Days_Since_Restock_def)
  have "set_Days_Since_Restock (20010 * day_ns) seven_stockouts \<noteq> seven_stockouts"
    using c d by (metis in_set_conv_decomp)
  then show ?thesis
    unfolding i inventory_alerts_frame using n d c by simp
qed

subsection \<open>Ingestion\<close>

text \<open>
  C10. When the table read from the sales file lacks the \<open>Date\<close> column, \<open>load_data\<close>
  returns the sales table as absent, and its error list holds the missing-column
  validation message and the load-error message of the sales file, followed by exactly
  the errors the inventory file gives on its own; the inventory table is the one the
  inventory file gives on its own. The same holds with the two files exchanged.
\<close>

theorem load_data_missing_Date:
  "(read_file pd sales_file = Inr data \<and> ''Date'' \<notin> set (columns_of pd data) \<longrightarrow>
      load_data iter pd sales_file inventory_file =
        (None,
         fst (load_table iter pd inventory_columns ''Inventory Report'' ''inventory''
                inventory_file []),
         [''Sales Report is missing columns: '' @
            join '', '' (iter (set sales_columns - set (columns_of pd data))),
          ''Error loading sales file: '' @ key_error ''Date''] @
         snd (load_table iter pd inventory_columns ''Inventory Report'' ''inventory''
                inventory_file []))) \<and>
   (read_file pd inventory_file = Inr data \<and> ''Date'' \<notin> set (columns_of pd data) \<longrightarrow>
      load_data iter pd sales_file inventory_file =
        (fst (load_table iter pd sales_columns ''Sales Report'' ''sales'' sales_file []),
         None,
         snd (load_table iter pd sales_columns ''Sales Report'' ''sales'' sales_file []) @
         [''Inventory Report is missing columns: '' @
            join '', '' (iter (set inventory_columns - set (columns_of pd data))),
          ''Error loading inventory file: '' @ key_error ''Date'']))"
proof (intro conjI impI)
  assume a: "read_file pd sales_file = Inr data \<and> ''Date'' \<notin> set (columns_of pd data)"
  have d: "''Date'' \<in> set sales_columns" by (simp add: sales_columns_def)
  have s: "load_table iter pd sales_columns ''Sales Report'' ''sales'' sales_file [] =
           (None, [''Sales Report'' @ '' is missing columns: '' @
                     join '', '' (iter (set sales_columns - set (columns_of pd data))),
                   ''Error loading '' @ ''sales'' @ '' file: '' @ key_error ''Date''])"
    using a d by (intro load_table_no_Date) simp_all
  show "load_data iter pd sales_file inventory_file =
        (None,
         fst (load_table iter pd inventory_columns ''Inventory Report'' ''inventory''
                inventory_file []),
         [''Sales Report is missing columns: '' @
            join '', '' (iter (set sales_columns - set (columns_of pd data))),
          ''Error loading sales file: '' @ key_error ''Date''] @
         snd (load_table iter pd inventory_columns ''Inventory Report'' ''inventory''
                inventory_file []))"
    unfolding load_data_def Let_def s prod.case
    by (subst load_table_errors) simp
next
  assume a: "read_file pd inventory_file = Inr data \<and> ''Date'' \<notin> set (columns_of pd data)"
  have d: "''Date'' \<in> set inventory_columns" by (simp add: inventory_columns_def)
  have s: "load_table iter pd inventory_columns ''Inventory Report'' ''inventory'' inventory_file [] =
           (None, [''Inventory Report'' @ '' is missing columns: '' @
                     join '', '' (iter (set inventory_columns - set (columns_of pd data))),
                   ''Error loading '' @ ''inventory'' @ '' file: '' @ key_error ''Date''])"
    using a d by (intro load_table_no_Date) simp_all
  show "load_data iter pd sales_file inventory_file =
        (fst (load_table iter pd sales_columns ''Sales Report'' ''sales'' sales_file []),
         None,
         snd (load_table iter pd sales_columns ''Sales Report'' ''sales'' sales_file []) @
         [''Inventory Report is missing columns: '' @
            join '', '' (iter (set inventory_columns - set (columns_of pd data))),
          ''Error loading inventory file: '' @ key_error ''Date''])"
    unfolding load_data_def Let_def split_def
    by (simp only: load_table_errors [of iter pd inventory_columns "''Inventory Report''"
                     "''inventory''" inventory_file
                     "snd (load_table iter pd sales_columns ''Sales Report'' ''sales'' sales_file [])"]
                   s fst_conv snd_conv append.simps)
qed

theorem load_data_missing_Date_witness:
  "load_data sorted_list_of_set cells_pandas sales_upload inventory_upload =
     (None, None,
      [''Sales Report is missing columns: Date, Region'',
       ''Error loading sales file: '' @ key_error ''Date'',
       ''Inventory Report is missing columns: Date'',
       ''Error loading inventory file: '' @ key_error ''Date''])"
proof -
  have h: "read_file cells_pandas sales_upload = Inr (file_body sales_upload) \<and>
           ''Date'' \<notin> set (columns_of cells_pandas (file_body sales_upload))"
    by (simp add: read_file_def cells_pandas_def sales_upload_def endswith_def)
  have m: "set sales_columns - set (columns_of cells_pandas (file_body sales_upload)) =
             {''Date'', ''Region''}"
    by (auto simp: sales_columns_def cells_pandas_def sales_upload_def)
  have j: "join '', '' (sorted_list_of_set {''Date'', ''Region''}) = ''Date, Region''"
    by code_simp
  have i: "load_table sorted_list_of_set cells_pandas inventory_columns ''Inventory Report''
             ''inventory'' inventory_upload [] =
           (None, [''Inventory Report is missing columns: Date'',
                   ''Error loading inventory file: '' @ key_error ''Date''])"
    by code_simp
  have h': "read_file cells_pandas inventory_upload = Inr (file_body inventory_upload) \<and>
            ''Date'' \<notin> set (columns_of cells_pandas (file_body inventory_upload))"
    by (simp add: read_file_def cells_pandas_def inventory_upload_def endswith_def)
  have s: "load_table sorted_list_of_set cells_pandas sales_columns ''Sales Report''
             ''sales'' sales_upload [] =
           (None, [''Sales Report is missing columns: Date, Region'',
                   ''Error loading sales file: '' @ key_error ''Date''])"
    by code_simp
  have m': "set inventory_columns - set (columns_of cells_pandas (file_body inventory_upload)) =
             {''Date''}"
    by (auto simp: inventory_columns_def cells_pandas_def inventory_upload_def)
  have by_sales: "load_data sorted_list_of_set cells_pandas sales_upload inventory_upload =
     (None, None,
      [''Sales Report is missing columns: Date, Region'',
       ''Error loading sales file: '' @ key_error ''Date'',
       ''Inventory Report is missing columns: Date'',
       ''Error loading inventory file: '' @ key_error ''Date''])"
    using load_data_missing_Date [of cells_pandas sales_upload "file_body sales_upload" sorted_list_of_set
                    inventory_upload] h
    unfolding m j i by simp
  have by_inventory: "load_data sorted_list_of_set cells_pandas sales_upload inventory_upload =
     (None, None,
      [''Sales Report is missing columns: Date, Region'',
       ''Error loading sales file: '' @ key_error ''Date'',
       ''Inventory Report is missing columns: Date'',
       ''Error loading inventory file: '' @ key_error ''Date''])"
    using load_data_missing_Date [of cells_pandas sales_upload "file_body inventory_upload" sorted_list_of_set
                    inventory_upload] h'
    unfolding m' s by simp
  from by_sales by_inventory show ?thesis by simp
qed

subsection \<open>Demo Data Generator\<close>

text \<open>
  C7 (as amended). The output of \<open>generate_demo_data\<close> is a function of the seeded
  generator and of the wall clock. Two invocations agree on every column that is drawn
  from the seeded generator or fixed by the code: all sales columns except \<open>Date\<close> and
  \<open>Transaction_ID\<close>, the inventory column names, and all inventory columns except \<open>Date\<close>
  and \<open>Last_Restock_Date\<close>, whatever the clock reads in either invocation.
\<close>

theorem generate_demo_data_seeded_columns:
  "map (\<lambda>r. r\<lparr>Date := 0, Transaction_ID := None\<rparr>) (fst (generate_demo_data rng clock)) =
   map (\<lambda>r. r\<lparr>Date := 0, Transaction_ID := None\<rparr>) (fst (generate_demo_data rng clock')) \<and>
   inv_columns (snd (generate_demo_data rng clock)) =
   inv_columns (snd (generate_demo_data rng clock')) \<and>
   map (\<lambda>i. i\<lparr>inv_Date := 0, Last_Restock_Date := None\<rparr>)
       (inv_rows (snd (generate_demo_data rng clock))) =
   map (\<lambda>i. i\<lparr>inv_Date := 0, Last_Restock_Date := None\<rparr>)
       (inv_rows (snd (generate_demo_data rng clock')))"
proof -
  let ?S = "\<lambda>c. sales_loop rng (date_range (c 0) 30) ([], seed rng 42)"
  let ?I = "\<lambda>c. inventory_loop rng c ([], (snd (?S c), Suc 0))"
  have S: "same_but no_sale_clock (?S clock) (?S clock')"
    by (rule sales_loop_clock) (simp_all add: date_range_def same_but_def)
  then have st: "snd (?S clock) = snd (?S clock')" by (simp add: same_but_def)
  have "same_but no_item_clock (?I clock) (?I clock')"
    unfolding st by (rule inventory_loop_clock) (simp add: same_but_def)
  then have I: "map no_item_clock (fst (?I clock)) = map no_item_clock (fst (?I clock'))"
    by (simp add: same_but_def)
  have g: "generate_demo_data rng c =
           (fst (?S c), \<lparr> inv_columns = demo_inventory_columns, inv_rows = fst (?I c) \<rparr>)" for c
    by (simp add: generate_demo_data_def Let_def split_def)
  from S have S': "map no_sale_clock (fst (?S clock)) = map no_sale_clock (fst (?S clock'))"
    by (simp add: same_but_def)
  show ?thesis
    unfolding g using S' I
    by (simp add: no_sale_clock_def [abs_def] no_item_clock_def [abs_def])
qed

theorem generate_demo_data_seeded_columns_witness:
  "map (\<lambda>r. r\<lparr>Date := 0, Transaction_ID := None\<rparr>)
       (fst (generate_demo_data lowest_draws (clock_from (20010 * day_ns)))) =
   map (\<lambda>r. r\<lparr>Date := 0, Transaction_ID := None\<rparr>)
       (fst (generate_demo_data lowest_draws (clock_from (20010 * day_ns + 5000)))) \<and>
   inv_columns (snd (generate_demo_data lowest_draws (clock_from (20010 * day_ns)))) =
   inv_columns (snd (generate_demo_data lowest_draws (clock_from (20010 * day_ns + 5000)))) \<and>
   map (\<lambda>i. i\<lparr>inv_Date := 0, Last_Restock_Date := None\<rparr>)
       (inv_rows (snd (generate_demo_data lowest_draws (clock_from (20010 * day_ns))))) =
   map (\<lambda>i. i\<lparr>inv_Date := 0, Last_Restock_Date := None\<rparr>)
       (inv_rows (snd (generate_demo_data lowest_draws (clock_from (20010 * day_ns + 5000)))))"
  by (rule generate_demo_data_seeded_columns)

text \<open>
  The claim as stated fails: the dates are read from \<^verbatim>\<open>datetime.now()\<close>, so two
  invocations whose clock readings differ return different tables. With the same draws
  and clocks five microseconds apart, the first inventory row's \<open>Date\<close> differs.
\<close>

theorem generate_demo_data_clock_counterexample:
  "inv_Date (hd (inv_rows (snd (generate_demo_data lowest_draws (clock_from (20010 * day_ns)))))) = 20010 * day_ns + 1000 \<and>
   inv_Date (hd (inv_rows (snd (generate_demo_data lowest_draws (clock_from (20010 * day_ns + 5000)))))) = 20010 * day_ns + 6000 \<and>
   generate_demo_data lowest_draws (clock_from (20010 * day_ns)) \<noteq>
   generate_demo_data lowest_draws (clock_from (20010 * day_ns + 5000))"
proof -
  have a: "inv_Date (hd (inv_rows (snd (generate_demo_data lowest_draws (clock_from (20010 * day_ns)))))) = 20010 * day_ns + 1000"
    using first_inventory_Date [of lowest_draws "clock_from (20010 * day_ns)"]
    by (simp add: clock_from_def)
  have b: "inv_Date (hd (inv_rows (snd (generate_demo_data lowest_draws (clock_from (20010 * day_ns + 5000)))))) = 20010 * day_ns + 6000"
    using first_inventory_Date [of lowest_draws "clock_from (20010 * day_ns + 5000)"]
    by (simp add: clock_from_def)
  have "generate_demo_data lowest_draws (clock_from (20010 * day_ns)) \<noteq>
        generate_demo_data lowest_draws (clock_from (20010 * day_ns + 5000))"
  proof
    assume "generate_demo_data lowest_draws (clock_from (20010 * day_ns)) =
            generate_demo_data lowest_draws (clock_from (20010 * day_ns + 5000))"
    with a b show False by simp
  qed
  with a b show ?thesis by simp
qed

end
